theory Spec2Isabelle
  imports Main "HOL-Library.Char_ord" "HOL-Library.List_Lexorder" "HOL-Library.Sublist"
begin

section \<open>Strings as the converter uses them\<close>

text \<open>
  A JavaScript string is modelled as the list of its code units; the model reads code
  units below 256, so a \<^typ>\<open>string\<close> is the text itself. Of JavaScript's white space
  (what \<open>trim\<close> removes and \<open>\s\<close> matches) this range holds tab, line feed, vertical tab,
  form feed, carriage return, space and the no-break space; of its line terminators
  (what \<open>.\<close> does not match) it holds line feed and carriage return.
\<close>

definition isSpace :: "char \<Rightarrow> bool" where
  "isSpace c = (c \<in> set [CHR 0x09, CHR 0x0A, CHR 0x0B, CHR 0x0C, CHR 0x0D, CHR 0x20, CHR 0xA0])"

definition isLineTerminator :: "char \<Rightarrow> bool" where
  "isLineTerminator c = (c = CHR 0x0A \<or> c = CHR 0x0D)"

text \<open>The class \<open>\w\<close>: ASCII letters, digits and the underscore.\<close>

definition isWord :: "char \<Rightarrow> bool" where
  "isWord c = (let n = (of_char c :: nat) in
     (48 \<le> n \<and> n \<le> 57) \<or> (65 \<le> n \<and> n \<le> 90) \<or> (97 \<le> n \<and> n \<le> 122) \<or> n = 95)"

definition trimStart :: "string \<Rightarrow> string" where
  "trimStart s = dropWhile isSpace s"

definition trimEnd :: "string \<Rightarrow> string" where
  "trimEnd s = rev (dropWhile isSpace (rev s))"

definition trim :: "string \<Rightarrow> string" where
  "trim s = trimEnd (trimStart s)"

fun startsWith :: "string \<Rightarrow> string \<Rightarrow> bool" where
  "startsWith s [] = True"
| "startsWith [] (p # ps) = False"
| "startsWith (c # cs) (p # ps) = (c = p \<and> startsWith cs ps)"

text \<open>\<open>s.split(sep)\<close> for a one-character separator: always at least one piece.\<close>

fun splitOn :: "char \<Rightarrow> string \<Rightarrow> string list" where
  "splitOn sep [] = [[]]"
| "splitOn sep (c # cs) =
     (if c = sep then [] # splitOn sep cs
      else (case splitOn sep cs of [] \<Rightarrow> [[c]] | l # ls \<Rightarrow> (c # l) # ls))"

text \<open>\<open>xs.join(sep)\<close>.\<close>

fun join :: "string \<Rightarrow> string list \<Rightarrow> string" where
  "join sep [] = []"
| "join sep [x] = x"
| "join sep (x # y # ys) = x @ sep @ join sep (y # ys)"

definition newline :: char where
  "newline = CHR 0x0A"

datatype language = Pydantic | Typescript

text \<open>A matched literal is consumed: what remains is shorter by the literal's length.\<close>

lemma startsWith_length: "startsWith s p \<Longrightarrow> length p \<le> length s"
  by (induction s p rule: startsWith.induct) auto

section \<open>Import merging, structural type dialect\<close>

text \<open>
  \<open>mergeTypeScriptImports\<close>: the two nested loops over the import arrays, with the set
  \<open>seen\<close> of trimmed lines and the list \<open>merged\<close> of the lines pushed.
\<close>

fun mergeTsLine :: "string list \<times> string list \<Rightarrow> string \<Rightarrow> string list \<times> string list" where
  "mergeTsLine (seen, merged) importLine =
     (let trimmed = trim importLine in
      if trimmed \<notin> set seen then (seen @ [trimmed], merged @ [importLine])
      else (seen, merged))"

definition mergeTypeScriptImports :: "string list list \<Rightarrow> string list" where
  "mergeTypeScriptImports importArrays =
     snd (foldl (\<lambda>acc imports. foldl mergeTsLine acc imports) ([], []) importArrays)"

text \<open>
  The claim's reading, following the spec's words: each line once, compared by its exact
  text, in order of first occurrence.
\<close>

fun spec_dedupExact :: "string list \<Rightarrow> string list \<Rightarrow> string list" where
  "spec_dedupExact seen [] = []"
| "spec_dedupExact seen (l # ls) =
     (if l \<in> set seen then spec_dedupExact seen ls else l # spec_dedupExact (l # seen) ls)"

text \<open>What the loop does: first occurrence of each trimmed text, the line kept as it was.\<close>

fun firstByTrim :: "string list \<Rightarrow> string list \<Rightarrow> string list" where
  "firstByTrim seen [] = []"
| "firstByTrim seen (l # ls) =
     (if trim l \<in> set seen then firstByTrim seen ls else l # firstByTrim (trim l # seen) ls)"

section \<open>Enum extraction\<close>

subsection \<open>The line patterns\<close>

text \<open>
  The regular expressions are anchored sequences of literals and greedy character
  classes in which each class is followed by a character outside it, so matching never
  backtracks into a class: a class takes its maximal run. \<open>lit\<close> consumes a literal,
  \<open>spaces1\<close> is \<open>\s+\<close>, \<open>dropWhile isSpace\<close> is \<open>\s*\<close>.
\<close>

definition lit :: "string \<Rightarrow> string \<Rightarrow> string option" where
  "lit p s = (if startsWith s p then Some (drop (length p) s) else None)"

definition spaces1 :: "string \<Rightarrow> string option" where
  "spaces1 s = (case s of [] \<Rightarrow> None
                | c # cs \<Rightarrow> if isSpace c then Some (dropWhile isSpace cs) else None)"

definition endsWith :: "string \<Rightarrow> string \<Rightarrow> bool" where
  "endsWith s p = startsWith (rev s) (rev p)"

definition dquote :: char where
  "dquote = CHR 0x22"

text \<open>
  \<open>/^class\s+(\w+Enum)\(str,\s*Enum\):/\<close>. The group \<open>\w+Enum\<close> is followed by
  \<open>(\<close>, so it is the maximal run of word characters: that run ends in \<open>Enum\<close>
  and has at least one character before it.
\<close>

definition pyEnumMatch :: "string \<Rightarrow> bool" where
  "pyEnumMatch trimmed =
     (case lit ''class'' trimmed of None \<Rightarrow> False
      | Some r1 \<Rightarrow>
     (case spaces1 r1 of None \<Rightarrow> False
      | Some r2 \<Rightarrow>
        let name = takeWhile isWord r2 in
        4 < length name \<and> endsWith name ''Enum'' \<and>
        (case lit ''(str,'' (dropWhile isWord r2) of None \<Rightarrow> False
         | Some r3 \<Rightarrow> startsWith (dropWhile isSpace r3) ''Enum):'')))"

text \<open>\<open>/^\w+\s*=\s*"/\<close>, and with a leading \<open>\s*\<close> allowed, up to the opening quote.\<close>

definition assignPrefix :: "string \<Rightarrow> string option" where
  "assignPrefix s =
     (if takeWhile isWord s = [] then None
      else (case lit ''='' (dropWhile isSpace (dropWhile isWord s)) of None \<Rightarrow> None
            | Some r \<Rightarrow> lit [dquote] (dropWhile isSpace r)))"

definition pyAssignMatch :: "string \<Rightarrow> bool" where
  "pyAssignMatch trimmed = (assignPrefix trimmed \<noteq> None)"

text \<open>The group \<open>"([^"]+)"\<close> after the opening quote: a non-empty run up to the next quote.\<close>

definition quotedValue :: "string \<Rightarrow> string option" where
  "quotedValue r =
     (let v = takeWhile (\<lambda>c. c \<noteq> dquote) r in
      if v \<noteq> [] \<and> dropWhile (\<lambda>c. c \<noteq> dquote) r \<noteq> [] then Some v else None)"

text \<open>\<open>/^(\w+)\s*=\s*"([^"]+)"/\<close>: the second group.\<close>

definition pyValueMatch :: "string \<Rightarrow> string option" where
  "pyValueMatch trimmed =
     (case assignPrefix trimmed of None \<Rightarrow> None | Some r \<Rightarrow> quotedValue r)"

text \<open>\<open>/^enum\s+(\w+)\s*\{/\<close>.\<close>

definition tsEnumMatch :: "string \<Rightarrow> bool" where
  "tsEnumMatch trimmed =
     (case lit ''enum'' trimmed of None \<Rightarrow> False
      | Some r1 \<Rightarrow>
     (case spaces1 r1 of None \<Rightarrow> False
      | Some r2 \<Rightarrow>
        takeWhile isWord r2 \<noteq> [] \<and> startsWith (dropWhile isSpace (dropWhile isWord r2)) ''{''))"

text \<open>\<open>/^\s*(\w+)\s*=\s*"([^"]+)"/\<close>: the second group.\<close>

definition tsValueMatch :: "string \<Rightarrow> string option" where
  "tsValueMatch trimmed =
     (case assignPrefix (dropWhile isSpace trimmed) of None \<Rightarrow> None | Some r \<Rightarrow> quotedValue r)"

subsection \<open>The registry\<close>

text \<open>
  A JavaScript \<open>Map\<close> from signature to definition, in insertion order.
  \<open>setIfAbsent\<close> is \<open>if (!m.has(k)) m.set(k, v)\<close>.
\<close>

type_synonym enumRegistry = "(string \<times> string) list"

definition has :: "enumRegistry \<Rightarrow> string \<Rightarrow> bool" where
  "has m k = (k \<in> set (map fst m))"

definition setIfAbsent :: "enumRegistry \<Rightarrow> string \<Rightarrow> string \<Rightarrow> enumRegistry" where
  "setIfAbsent m k v = (if \<not> has m k then m @ [(k, v)] else m)"

text \<open>
  \<open>if (currentEnum !== null && enumSignature) { ... }\<close>: a block is saved under its
  signature when one is open and the signature is not the empty string.
\<close>

definition saveEnum :: "enumRegistry \<Rightarrow> string list option \<Rightarrow> string \<Rightarrow> enumRegistry" where
  "saveEnum m currentEnum enumSignature =
     (case currentEnum of None \<Rightarrow> m
      | Some block \<Rightarrow>
          if enumSignature \<noteq> [] then setIfAbsent m enumSignature (join [newline] block) else m)"

text \<open>\<open>if (enumSignature) enumSignature += ','; enumSignature += value\<close>.\<close>

definition addValue :: "string \<Rightarrow> string option \<Rightarrow> string" where
  "addValue enumSignature valueMatch =
     (case valueMatch of None \<Rightarrow> enumSignature
      | Some v \<Rightarrow> (if enumSignature \<noteq> [] then enumSignature @ '','' else enumSignature) @ v)"

definition indentOf :: "string \<Rightarrow> nat" where
  "indentOf line = length line - length (trimStart line)"

subsection \<open>Class-based dialect\<close>

record pyState =
  enumMap :: enumRegistry
  bodyLines :: "string list"
  currentEnum :: "string list option"
  enumIndent :: nat
  enumSignature :: string
  inEnum :: bool

definition pyInit :: pyState where
  "pyInit = \<lparr>enumMap = [], bodyLines = [], currentEnum = None, enumIndent = 0,
             enumSignature = [], inEnum = False\<rparr>"

text \<open>The test that a line has left the block (the \<open>if\<close> inside the block branch).\<close>

definition pyLeaves :: "nat \<Rightarrow> string \<Rightarrow> bool" where
  "pyLeaves headerIndent line =
     (trim line \<noteq> [] \<and> indentOf line \<le> headerIndent \<and> \<not> pyAssignMatch (trim line))"

text \<open>One iteration of the loop over the lines.\<close>

definition pyStep :: "pyState \<Rightarrow> string \<Rightarrow> pyState" where
  "pyStep s line =
     (if pyEnumMatch (trim line) then
        s\<lparr>enumMap := saveEnum (enumMap s) (currentEnum s) (enumSignature s),
          currentEnum := Some [line], enumIndent := indentOf line,
          enumSignature := [], inEnum := True\<rparr>
      else (case currentEnum s of
        Some block \<Rightarrow>
          if inEnum s then
            (if pyLeaves (enumIndent s) line then
               s\<lparr>enumMap := saveEnum (enumMap s) (Some block) (enumSignature s),
                 currentEnum := None, inEnum := False,
                 bodyLines := bodyLines s @ [line]\<rparr>
             else
               s\<lparr>currentEnum := Some (block @ [line]),
                 enumSignature := addValue (enumSignature s) (pyValueMatch (trim line))\<rparr>)
          else s\<lparr>bodyLines := bodyLines s @ [line]\<rparr>
      | None \<Rightarrow> s\<lparr>bodyLines := bodyLines s @ [line]\<rparr>))"

definition extractPythonEnums :: "string \<Rightarrow> enumRegistry \<times> string" where
  "extractPythonEnums body =
     (let s = foldl pyStep pyInit (splitOn newline body) in
      (saveEnum (enumMap s) (currentEnum s) (enumSignature s),
       trim (join [newline] (bodyLines s))))"

subsection \<open>Structural type dialect\<close>

record tsState =
  tsEnumMap :: enumRegistry
  tsBodyLines :: "string list"
  tsCurrentEnum :: "string list option"
  tsEnumSignature :: string

definition tsInit :: tsState where
  "tsInit = \<lparr>tsEnumMap = [], tsBodyLines = [], tsCurrentEnum = None, tsEnumSignature = []\<rparr>"

definition tsStep :: "tsState \<Rightarrow> string \<Rightarrow> tsState" where
  "tsStep s line =
     (if tsEnumMatch (trim line) then
        s\<lparr>tsEnumMap := saveEnum (tsEnumMap s) (tsCurrentEnum s) (tsEnumSignature s),
          tsCurrentEnum := Some [line], tsEnumSignature := []\<rparr>
      else (case tsCurrentEnum s of
        Some block \<Rightarrow>
          if trim line = ''}'' then
            s\<lparr>tsEnumMap := saveEnum (tsEnumMap s) (Some (block @ [line])) (tsEnumSignature s),
              tsCurrentEnum := None\<rparr>
          else
            s\<lparr>tsCurrentEnum := Some (block @ [line]),
              tsEnumSignature := addValue (tsEnumSignature s) (tsValueMatch (trim line))\<rparr>
      | None \<Rightarrow> s\<lparr>tsBodyLines := tsBodyLines s @ [line]\<rparr>))"

definition extractTypeScriptEnums :: "string \<Rightarrow> enumRegistry \<times> string" where
  "extractTypeScriptEnums body =
     (let s = foldl tsStep tsInit (splitOn newline body) in
      (saveEnum (tsEnumMap s) (tsCurrentEnum s) (tsEnumSignature s),
       trim (join [newline] (tsBodyLines s))))"

subsection \<open>Names for the statements about blocks\<close>

text \<open>A line stays in an open class-dialect block when the leaving test fails.\<close>

definition pyStays :: "string \<Rightarrow> string \<Rightarrow> bool" where
  "pyStays header line =
     (trim line = [] \<or> indentOf header < indentOf line \<or> pyAssignMatch (trim line))"

text \<open>The signature the loop accumulates over the lines of a block after its header.\<close>

definition pySignature :: "string list \<Rightarrow> string" where
  "pySignature ls = foldl (\<lambda>sig l. addValue sig (pyValueMatch (trim l))) [] ls"

definition tsSignature :: "string list \<Rightarrow> string" where
  "tsSignature ls = foldl (\<lambda>sig l. addValue sig (tsValueMatch (trim l))) [] ls"

definition tsCloses :: "string \<Rightarrow> bool" where
  "tsCloses line = (trim line = ''}'')"


section \<open>Error formatting\<close>

text \<open>
  What a \<open>catch\<close> receives: an \<open>Error\<close> object with its message, or any other value.
\<close>

datatype thrown = ErrorObj string | NonError

definition squote :: char where
  "squote = CHR 0x27"

definition getCommentPrefix :: "language \<Rightarrow> string" where
  "getCommentPrefix language = (case language of Pydantic \<Rightarrow> ''#'' | Typescript \<Rightarrow> ''//'')"

text \<open>
  \<open>/z\.(\w+) is not a function/\<close>, unanchored: the leftmost position where it matches,
  and the group. The group is followed by a space, so it is the maximal run.
\<close>

definition notFunctionAt :: "string \<Rightarrow> string option" where
  "notFunctionAt s =
     (case lit ''z.'' s of None \<Rightarrow> None
      | Some r \<Rightarrow>
          if takeWhile isWord r \<noteq> [] \<and> startsWith (dropWhile isWord r) '' is not a function''
          then Some (takeWhile isWord r) else None)"

fun notFunctionMatch :: "string \<Rightarrow> string option" where
  "notFunctionMatch [] = None"
| "notFunctionMatch (c # cs) =
     (case notFunctionAt (c # cs) of Some method \<Rightarrow> Some method
      | None \<Rightarrow> notFunctionMatch cs)"

text \<open>
  \<open>/Failed to import schema module "([^"]+)": (.+)/\<close>, unanchored: the second group, the
  rest of the line after the quoted module name.
\<close>

definition importFailAt :: "string \<Rightarrow> string option" where
  "importFailAt s =
     (case lit (''Failed to import schema module '' @ [dquote]) s of None \<Rightarrow> None
      | Some r \<Rightarrow>
          if takeWhile (\<lambda>c. c \<noteq> dquote) r = [] then None
          else (case lit ([dquote] @ '': '') (dropWhile (\<lambda>c. c \<noteq> dquote) r) of None \<Rightarrow> None
                | Some r' \<Rightarrow>
                    if takeWhile (\<lambda>c. \<not> isLineTerminator c) r' = [] then None
                    else Some (takeWhile (\<lambda>c. \<not> isLineTerminator c) r')))"

fun importFailMatch :: "string \<Rightarrow> string option" where
  "importFailMatch [] = None"
| "importFailMatch (c # cs) =
     (case importFailAt (c # cs) of Some actualError \<Rightarrow> Some actualError
      | None \<Rightarrow> importFailMatch cs)"

text \<open>
  \<open>/\/var\/folders\/[^\s]+\/schema\.(ts|mjs)/g\<close>. The class \<open>[^\s]+\<close> is greedy and
  backtracks: of the run of non-space characters after the prefix it takes the longest
  part (at least one character) after which \<open>/schema.ts\<close> or \<open>/schema.mjs\<close> follows.
  \<open>tempPathAt\<close> gives what remains of the string after a match at its start.
\<close>

definition schemaSuffix :: "string \<Rightarrow> string option" where
  "schemaSuffix t =
     (case lit ''/schema.'' t of None \<Rightarrow> None
      | Some u \<Rightarrow> (case lit ''ts'' u of Some v \<Rightarrow> Some v | None \<Rightarrow> lit ''mjs'' u))"

fun lastSchema :: "nat \<Rightarrow> string \<Rightarrow> string option" where
  "lastSchema 0 r = None"
| "lastSchema (Suc k) r =
     (case schemaSuffix (drop (Suc k) r) of Some rest \<Rightarrow> Some rest
      | None \<Rightarrow> lastSchema k r)"

definition tempPathAt :: "string \<Rightarrow> string option" where
  "tempPathAt s =
     (case lit ''/var/folders/'' s of None \<Rightarrow> None
      | Some r \<Rightarrow> lastSchema (length (takeWhile (\<lambda>c. \<not> isSpace c) r)) r)"

lemma lit_length: "lit p s = Some r \<Longrightarrow> length r + length p = length s"
  by (auto simp: lit_def dest: startsWith_length split: if_splits)

lemma schemaSuffix_length: "schemaSuffix t = Some rest \<Longrightarrow> length rest < length t"
  by (auto simp: schemaSuffix_def split: option.splits dest!: lit_length)

lemma lastSchema_length: "lastSchema k r = Some rest \<Longrightarrow> length rest < length r"
  by (induction k) (auto split: option.splits dest!: schemaSuffix_length)

lemma tempPathAt_length: "tempPathAt s = Some rest \<Longrightarrow> length rest < length s"
  by (auto simp: tempPathAt_def split: option.splits dest!: lit_length lastSchema_length)

text \<open>\<open>.replace(/.../g, 'schema file')\<close>: left to right, matches do not overlap.\<close>

function replaceTempPaths :: "string \<Rightarrow> string" where
  "replaceTempPaths [] = []"
| "replaceTempPaths (c # cs) =
     (case tempPathAt (c # cs) of
        Some rest \<Rightarrow> ''schema file'' @ replaceTempPaths rest
      | None \<Rightarrow> c # replaceTempPaths cs)"
  by pat_completeness auto
termination
  by (relation "measure length") (auto dest: tempPathAt_length)

text \<open>\<open>.replace(/import_zod\./g, '')\<close>.\<close>

function removeAlias :: "string \<Rightarrow> string" where
  "removeAlias [] = []"
| "removeAlias (c # cs) =
     (case lit ''import_zod.'' (c # cs) of
        Some rest \<Rightarrow> removeAlias rest
      | None \<Rightarrow> c # removeAlias cs)"
  by pat_completeness auto
termination
  by (relation "measure length") (auto dest: lit_length)

definition formatConversionError :: "string \<Rightarrow> thrown \<Rightarrow> language \<Rightarrow> string" where
  "formatConversionError exportName error language =
     (let errorMessage = (case error of ErrorObj message \<Rightarrow> message | NonError \<Rightarrow> ''Unknown error'');
          commentPrefix = getCommentPrefix language
      in case notFunctionMatch errorMessage of
           Some method \<Rightarrow>
             commentPrefix @ '' Invalid Zod method '' @ [squote] @ ''z.'' @ method @ ''()''
               @ [squote] @ '' in schema '' @ [squote] @ exportName @ [squote]
               @ ''. This method may not exist in the selected Zod version. Check the Zod documentation for valid methods.''
         | None \<Rightarrow>
        (case importFailMatch errorMessage of
           Some actualError \<Rightarrow>
             commentPrefix @ '' Failed to load schema '' @ [squote] @ exportName @ [squote]
               @ '': '' @ actualError
         | None \<Rightarrow>
             commentPrefix @ '' Error in schema '' @ [squote] @ exportName @ [squote] @ '': ''
               @ removeAlias (replaceTempPaths errorMessage)))"

section \<open>Splitting a generated text into imports and body\<close>

text \<open>
  The loops of \<open>extractPythonImports\<close> and \<open>extractTypeScriptImports\<close>: the state is the
  flag \<open>inImports\<close> with the lines pushed to \<open>imports\<close> and to \<open>bodyLines\<close>.
\<close>

definition isPythonImport :: "string \<Rightarrow> bool" where
  "isPythonImport line = (startsWith (trim line) ''from '' \<or> startsWith (trim line) ''import '')"

definition isTypeScriptImport :: "string \<Rightarrow> bool" where
  "isTypeScriptImport line = startsWith (trim line) ''import ''"

fun splitStep :: "(string \<Rightarrow> bool) \<Rightarrow> bool \<times> string list \<times> string list \<Rightarrow> string
    \<Rightarrow> bool \<times> string list \<times> string list" where
  "splitStep isImport (inImports, imports, body) line =
     (if inImports \<and> isImport line then (inImports, imports @ [line], body)
      else (False, imports, body @ [line]))"

definition extractImports :: "(string \<Rightarrow> bool) \<Rightarrow> string \<Rightarrow> string list \<times> string" where
  "extractImports isImport output =
     (case foldl (splitStep isImport) (True, [], []) (splitOn newline output) of
        (inImports, imports, body) \<Rightarrow> (imports, trim (join [newline] body)))"

definition extractPythonImports :: "string \<Rightarrow> string list \<times> string" where
  "extractPythonImports output = extractImports isPythonImport output"

definition extractTypeScriptImports :: "string \<Rightarrow> string list \<times> string" where
  "extractTypeScriptImports output = extractImports isTypeScriptImport output"

section \<open>Import merging, class-based dialect\<close>

text \<open>
  \<open>/^from\s+(\S+)\s+import\s+(.+)$/\<close> on a trimmed line: the module and the item text.
  The item text runs to the end of the string and holds no line terminator.
\<close>

definition restOfLine :: "string \<Rightarrow> string option" where
  "restOfLine r = (if r \<noteq> [] \<and> list_all (\<lambda>c. \<not> isLineTerminator c) r then Some r else None)"

definition fromMatch :: "string \<Rightarrow> (string \<times> string) option" where
  "fromMatch trimmed =
     (case lit ''from'' trimmed of None \<Rightarrow> None
      | Some r1 \<Rightarrow>
     (case spaces1 r1 of None \<Rightarrow> None
      | Some r2 \<Rightarrow>
        if takeWhile (\<lambda>c. \<not> isSpace c) r2 = [] then None
        else
     (case spaces1 (dropWhile (\<lambda>c. \<not> isSpace c) r2) of None \<Rightarrow> None
      | Some r3 \<Rightarrow>
     (case lit ''import'' r3 of None \<Rightarrow> None
      | Some r4 \<Rightarrow>
     (case spaces1 r4 of None \<Rightarrow> None
      | Some r5 \<Rightarrow>
     (case restOfLine r5 of None \<Rightarrow> None
      | Some items \<Rightarrow> Some (takeWhile (\<lambda>c. \<not> isSpace c) r2, items)))))))"

text \<open>\<open>/^import\s+(.+)$/\<close>.\<close>

definition importMatch :: "string \<Rightarrow> bool" where
  "importMatch trimmed =
     (case lit ''import'' trimmed of None \<Rightarrow> False
      | Some r1 \<Rightarrow> (case spaces1 r1 of None \<Rightarrow> False | Some r2 \<Rightarrow> restOfLine r2 \<noteq> None))"

text \<open>A JavaScript \<open>Set\<close> of strings, in insertion order.\<close>

definition setAdd :: "string list \<Rightarrow> string \<Rightarrow> string list" where
  "setAdd xs x = (if x \<in> set xs then xs else xs @ [x])"

text \<open>\<open>importsByModule\<close>: a \<open>Map\<close> from module to the set of its items, in insertion order.\<close>

fun addItems :: "(string \<times> string list) list \<Rightarrow> string \<Rightarrow> string list
    \<Rightarrow> (string \<times> string list) list" where
  "addItems [] module itemList = [(module, foldl setAdd [] itemList)]"
| "addItems ((m, items) # rest) module itemList =
     (if m = module then (m, foldl setAdd items itemList) # rest
      else (m, items) # addItems rest module itemList)"

definition getItems :: "(string \<times> string list) list \<Rightarrow> string \<Rightarrow> string list" where
  "getItems importsByModule module =
     (case map_of importsByModule module of None \<Rightarrow> [] | Some items \<Rightarrow> items)"

fun mergePyLine :: "(string \<times> string list) list \<times> string list \<Rightarrow> string
    \<Rightarrow> (string \<times> string list) list \<times> string list" where
  "mergePyLine (importsByModule, standaloneImports) importLine =
     (case fromMatch (trim importLine) of
        Some (module, items) \<Rightarrow>
          (addItems importsByModule module (map trim (splitOn CHR '','' items)), standaloneImports)
      | None \<Rightarrow>
          if importMatch (trim importLine)
          then (importsByModule, setAdd standaloneImports (trim importLine))
          else (importsByModule, standaloneImports))"

text \<open>
  \<open>sort()\<close> with no comparator orders strings by their code units: the lexicographic
  order on \<^typ>\<open>string\<close>.
\<close>

definition mergePythonImports :: "string list list \<Rightarrow> string list" where
  "mergePythonImports importArrays =
     (case foldl (\<lambda>acc imports. foldl mergePyLine acc imports) ([], []) importArrays of
        (importsByModule, standaloneImports) \<Rightarrow>
          concat (map (\<lambda>module.
                    let items = sort (getItems importsByModule module) in
                    if items \<noteq> [] then [''from '' @ module @ '' import '' @ join '', '' items]
                    else [])
                  (sort (map fst importsByModule)))
          @ sort standaloneImports)"

definition mergeImports :: "string list list \<Rightarrow> language \<Rightarrow> string list" where
  "mergeImports importArrays language =
     (case language of Pydantic \<Rightarrow> mergePythonImports importArrays
      | Typescript \<Rightarrow> mergeTypeScriptImports importArrays)"

section \<open>Export detection\<close>

text \<open>
  \<open>/const\s+(\w+)\s*=\s*z\./\<close> at the start of a string: the name and what remains
  after the match. \<open>/export\s+const\s+(\w+)\s*=\s*z\./\<close> is the same after
  \<open>export\s+\<close>.
\<close>

definition constAt :: "string \<Rightarrow> (string \<times> string) option" where
  "constAt s =
     (case lit ''const'' s of None \<Rightarrow> None
      | Some r1 \<Rightarrow>
     (case spaces1 r1 of None \<Rightarrow> None
      | Some r2 \<Rightarrow>
        if takeWhile isWord r2 = [] then None
        else
     (case lit ''='' (dropWhile isSpace (dropWhile isWord r2)) of None \<Rightarrow> None
      | Some r3 \<Rightarrow>
     (case lit ''z.'' (dropWhile isSpace r3) of None \<Rightarrow> None
      | Some r4 \<Rightarrow> Some (takeWhile isWord r2, r4)))))"

definition exportedAt :: "string \<Rightarrow> (string \<times> string) option" where
  "exportedAt s =
     (case lit ''export'' s of None \<Rightarrow> None
      | Some r1 \<Rightarrow> (case spaces1 r1 of None \<Rightarrow> None | Some r2 \<Rightarrow> constAt r2))"

lemma dropWhile_length: "length (dropWhile P xs) \<le> length xs"
  by (induction xs) auto

lemma spaces1_length: "spaces1 s = Some r \<Longrightarrow> length r < length s"
  using dropWhile_length [of isSpace "tl s"]
  by (cases s) (auto simp: spaces1_def split: if_splits)

lemma constAt_length: "constAt s = Some (name, rest) \<Longrightarrow> length rest < length s"
proof -
  assume a: "constAt s = Some (name, rest)"
  then obtain r1 r2 r3 where r1: "lit ''const'' s = Some r1" and r2: "spaces1 r1 = Some r2"
    and r3: "lit ''='' (dropWhile isSpace (dropWhile isWord r2)) = Some r3"
    and r4: "lit ''z.'' (dropWhile isSpace r3) = Some rest"
    by (auto simp: constAt_def split: option.splits if_splits)
  have "length rest \<le> length (dropWhile isSpace r3)" using lit_length [OF r4] by simp
  also have "\<dots> \<le> length r3" by (rule dropWhile_length)
  also have "\<dots> \<le> length (dropWhile isSpace (dropWhile isWord r2))"
    using lit_length [OF r3] by simp
  also have "\<dots> \<le> length (dropWhile isWord r2)" by (rule dropWhile_length)
  also have "\<dots> \<le> length r2" by (rule dropWhile_length)
  also have "\<dots> < length r1" by (rule spaces1_length [OF r2])
  also have "\<dots> \<le> length s" using lit_length [OF r1] by simp
  finally show ?thesis .
qed

lemma exportedAt_length: "exportedAt s = Some (name, rest) \<Longrightarrow> length rest < length s"
proof -
  assume a: "exportedAt s = Some (name, rest)"
  then obtain r1 r2 where r1: "lit ''export'' s = Some r1" and r2: "spaces1 r1 = Some r2"
    and r3: "constAt r2 = Some (name, rest)"
    by (auto simp: exportedAt_def split: option.splits)
  have "length rest < length r2" by (rule constAt_length [OF r3])
  also have "\<dots> < length r1" by (rule spaces1_length [OF r2])
  also have "\<dots> \<le> length s" using lit_length [OF r1] by simp
  finally show ?thesis .
qed

text \<open>\<open>matchAll\<close> with a global pattern: leftmost matches, each search resuming after the last.\<close>

function allMatches :: "string \<Rightarrow> string list" where
  "allMatches [] = []"
| "allMatches (c # cs) =
     (case constAt (c # cs) of
        Some (name, rest) \<Rightarrow> name # allMatches rest
      | None \<Rightarrow> allMatches cs)"
  by pat_completeness auto
termination
  by (relation "measure length") (auto dest: constAt_length)

function exportedMatches :: "string \<Rightarrow> string list" where
  "exportedMatches [] = []"
| "exportedMatches (c # cs) =
     (case exportedAt (c # cs) of
        Some (name, rest) \<Rightarrow> name # exportedMatches rest
      | None \<Rightarrow> exportedMatches cs)"
  by pat_completeness auto
termination
  by (relation "measure length") (auto dest: exportedAt_length)

record exportCatalog =
  exported :: "string list"
  nonExported :: "string list"

definition detectAllZodSchemas :: "string \<Rightarrow> exportCatalog" where
  "detectAllZodSchemas schemaCode =
     \<lparr>exported = exportedMatches schemaCode,
      nonExported = filter (\<lambda>name. name \<notin> set (exportedMatches schemaCode))
                           (allMatches schemaCode)\<rparr>"

section \<open>The conversion request\<close>

subsection \<open>The world outside the converter\<close>

datatype zodVersion = V3 | V4

definition showVersion :: "zodVersion \<Rightarrow> string" where
  "showVersion v = (case v of V3 \<Rightarrow> ''3'' | V4 \<Rightarrow> ''4'')"

fun showNat :: "nat \<Rightarrow> string" where
  "showNat n = (if n < 10 then [''0123456789'' ! n]
                else showNat (n div 10) @ [''0123456789'' ! (n mod 10)])"

text \<open>What \<open>convertZodSchema\<close> resolves to: \<open>{ output }\<close> or \<open>{ error }\<close>.\<close>

datatype result = Output string | Error string

text \<open>An \<open>async\<close> function returns its value or rejects with what was thrown.\<close>

datatype 'a outcome = Returns 'a | Throws thrown

text \<open>
  The calls that leave the converter, in the order made: the file system calls, the
  delegate's loader and generators, and the console.
\<close>

datatype logged = Thrown thrown | Warnings "string list"

datatype event =
    Mkdir string
  | Symlink string string
  | WriteFile string string
  | Rm string
  | LoadZodSchema string string
  | ConvertZodToPydantic string
  | ConvertZodToTypescript string
  | ConsoleWarn string logged
  | ConsoleError string logged

text \<open>
  The file system is the list of the paths that exist. \<open>mkdir\<close> with \<open>recursive\<close>
  adds the directory (its ancestors here are the system's temporary directory and
  exist), \<open>rm\<close> with \<open>recursive\<close> and \<open>force\<close> removes the path and all below it.
\<close>

record world =
  files :: "string list"
  trace :: "event list"

definition existsSync :: "world \<Rightarrow> string \<Rightarrow> bool" where
  "existsSync w p = (p \<in> set (files w))"

definition addPath :: "string \<Rightarrow> string list \<Rightarrow> string list" where
  "addPath p fs = (if p \<in> set fs then fs else fs @ [p])"

definition rmTree :: "string \<Rightarrow> string list \<Rightarrow> string list" where
  "rmTree p fs = filter (\<lambda>q. q \<noteq> p \<and> \<not> startsWith q (p @ ''/'')) fs"

text \<open>\<open>path.join\<close> of segments that are already normalised.\<close>

definition pathJoin :: "string \<Rightarrow> string \<Rightarrow> string" where
  "pathJoin a b = a @ ''/'' @ b"

text \<open>The five places where the converter calls the file system.\<close>

datatype fsCall = MkdirTempDir | MkdirNodeModules | SymlinkZod | WriteSchema | RmTempDir

text \<open>
  The environment of one request: what \<open>findNodeModulesRoot\<close> finds (\<open>None\<close> when it
  throws), the system's temporary directory, the clock and the random suffix that name
  the workspace, which file system calls throw, the transpiler, and the delegate
  library. The delegate is opaque: the loader is given the module file and the export
  name and gives a schema with warnings or throws; a generator is given the schema and
  the name and gives the generated text or throws.
\<close>

record 's env =
  moduleRoot :: "string option"
  tmpdir :: string
  now :: nat
  random :: string
  fails :: "fsCall \<Rightarrow> thrown option"
  transpile :: "string \<Rightarrow> string"
  loadZodSchema :: "string \<Rightarrow> string \<Rightarrow> thrown + ('s \<times> string list)"
  convertZodToPydantic :: "'s \<Rightarrow> string \<Rightarrow> thrown + string"
  convertZodToTypescript :: "'s \<Rightarrow> string \<Rightarrow> thrown + string"

definition tempDirOf :: "'s env \<Rightarrow> string" where
  "tempDirOf e = pathJoin (tmpdir e) (''sb-playground-'' @ showNat (now e) @ ''-'' @ random e)"

definition tempFileOf :: "'s env \<Rightarrow> string" where
  "tempFileOf e = pathJoin (tempDirOf e) ''schema.mjs''"

definition tempNodeModulesOf :: "'s env \<Rightarrow> string" where
  "tempNodeModulesOf e = pathJoin (tempDirOf e) ''node_modules''"

definition zodLinkOf :: "'s env \<Rightarrow> string" where
  "zodLinkOf e = pathJoin (pathJoin (tempDirOf e) ''node_modules'') ''zod''"

definition zodVersionPathOf :: "string \<Rightarrow> zodVersion \<Rightarrow> string" where
  "zodVersionPathOf root v = pathJoin (pathJoin root ''node_modules'') (''zod-v'' @ showVersion v)"

text \<open>
  One file system call: it is recorded; it throws when the environment says so, and
  otherwise has its effect on the paths.
\<close>

definition fsDo :: "'s env \<Rightarrow> fsCall \<Rightarrow> event \<Rightarrow> (string list \<Rightarrow> string list) \<Rightarrow> world
    \<Rightarrow> thrown option \<times> world" where
  "fsDo e call ev effect w =
     (case fails e call of
        Some t \<Rightarrow> (Some t, w\<lparr>trace := trace w @ [ev]\<rparr>)
      | None \<Rightarrow> (None, w\<lparr>files := effect (files w), trace := trace w @ [ev]\<rparr>))"

definition logEvent :: "event \<Rightarrow> world \<Rightarrow> world" where
  "logEvent ev w = w\<lparr>trace := trace w @ [ev]\<rparr>"

subsection \<open>One binding\<close>

record batch =
  allImports :: "string list list"
  allEnums :: enumRegistry
  bodyOutputs :: "string list"

definition emptyBatch :: batch where
  "emptyBatch = \<lparr>allImports = [], allEnums = [], bodyOutputs = []\<rparr>"

text \<open>The \<open>catch\<close> of the loop body.\<close>

definition exportFailed :: "language \<Rightarrow> string \<Rightarrow> thrown \<Rightarrow> batch \<times> world \<Rightarrow> batch \<times> world" where
  "exportFailed language exportName err bw =
     (case bw of (b, w) \<Rightarrow>
        (b\<lparr>bodyOutputs := bodyOutputs b @ [formatConversionError exportName err language],
           allImports := allImports b @ [[]]\<rparr>,
         logEvent (ConsoleError (''Error converting '' @ exportName @ '':'') (Thrown err)) w))"

text \<open>The merge of one binding's enums into the registry of the request.\<close>

definition mergeEnums :: "enumRegistry \<Rightarrow> enumRegistry \<Rightarrow> enumRegistry" where
  "mergeEnums registry enums =
     foldl (\<lambda>m entry. setIfAbsent m (fst entry) (snd entry)) registry enums"

text \<open>The \<open>try\<close> of the loop body after the generator returned \<open>output\<close>.\<close>

definition exportConverted :: "language \<Rightarrow> string \<Rightarrow> batch \<Rightarrow> batch" where
  "exportConverted language output b =
     (case (case language of Pydantic \<Rightarrow> extractPythonImports output
                           | Typescript \<Rightarrow> extractTypeScriptImports output) of
        (imports, body) \<Rightarrow>
     (case (case language of Pydantic \<Rightarrow> extractPythonEnums body
                           | Typescript \<Rightarrow> extractTypeScriptEnums body) of
        (enums, bodyWithoutEnums) \<Rightarrow>
          b\<lparr>allImports := allImports b @ [imports],
            allEnums := mergeEnums (allEnums b) enums,
            bodyOutputs := bodyOutputs b @ [bodyWithoutEnums]\<rparr>))"

text \<open>One iteration of the loop over the export names.\<close>

definition convertExport :: "'s env \<Rightarrow> language \<Rightarrow> batch \<times> world \<Rightarrow> string \<Rightarrow> batch \<times> world" where
  "convertExport e language bw exportName =
     (case bw of (b, w) \<Rightarrow>
      let w1 = logEvent (LoadZodSchema (tempFileOf e) exportName) w in
      case loadZodSchema e (tempFileOf e) exportName of
        Inl err \<Rightarrow> exportFailed language exportName err (b, w1)
      | Inr (schema, warnings) \<Rightarrow>
          let w2 = (if warnings \<noteq> []
                    then logEvent (ConsoleWarn (''Warnings for '' @ exportName @ '':'')
                                     (Warnings warnings)) w1
                    else w1)
          in (case language of
                Pydantic \<Rightarrow>
                  (case convertZodToPydantic e schema exportName of
                     Inl err \<Rightarrow>
                       exportFailed language exportName err
                         (b, logEvent (ConvertZodToPydantic exportName) w2)
                   | Inr output \<Rightarrow>
                       (exportConverted language output b,
                        logEvent (ConvertZodToPydantic exportName) w2))
              | Typescript \<Rightarrow>
                  (case convertZodToTypescript e schema exportName of
                     Inl err \<Rightarrow>
                       exportFailed language exportName err
                         (b, logEvent (ConvertZodToTypescript exportName) w2)
                   | Inr output \<Rightarrow>
                       (exportConverted language output b,
                        logEvent (ConvertZodToTypescript exportName) w2))))"

subsection \<open>Assembling the output\<close>

definition unhandledComment :: "language \<Rightarrow> string list \<Rightarrow> string" where
  "unhandledComment language nonExportedNames =
     (if nonExportedNames \<noteq> [] then
        [newline, newline] @ getCommentPrefix language
          @ '' Note: The following Zod schemas were detected but not converted because they are not exported:''
          @ [newline] @ getCommentPrefix language @ '' '' @ join '', '' nonExportedNames
          @ [newline] @ getCommentPrefix language @ '' To convert them, add '' @ [squote]
          @ ''export'' @ [squote] @ '' before their declaration (e.g., export const ''
          @ hd nonExportedNames @ '' = z....)''
      else [])"

definition assemble :: "language \<Rightarrow> string list \<Rightarrow> batch \<Rightarrow> string" where
  "assemble language nonExportedNames b =
     (let mergedImports = mergeImports (allImports b) language;
          importsSection = (if mergedImports \<noteq> [] then join [newline] mergedImports @ [newline]
                            else []);
          enumSection = (if allEnums b \<noteq> []
                         then join [newline, newline] (map snd (allEnums b)) @ [newline, newline]
                         else []);
          bodySection = join [newline, newline] (bodyOutputs b);
          spacingAfterImports =
            (if importsSection \<noteq> [] \<and> (enumSection \<noteq> [] \<or> bodySection \<noteq> [])
             then [newline] else [])
      in importsSection @ spacingAfterImports @ enumSection @ bodySection
           @ unhandledComment language nonExportedNames)"

subsection \<open>The request\<close>

text \<open>
  The \<open>try\<close> block: what it returns, or what it throws, with the world as it leaves it.
\<close>

definition tryBlock :: "'s env \<Rightarrow> string \<Rightarrow> string \<Rightarrow> language \<Rightarrow> zodVersion \<Rightarrow> world
    \<Rightarrow> (thrown + result) \<times> world" where
  "tryBlock e root schemaCode targetLanguage v w =
     (let exportNames = exported (detectAllZodSchemas schemaCode) in
      if exportNames = [] then
        (Inr (Error ''No Zod schema exports found. Make sure to export your schemas with: export const schemaName = z.object(...)''), w)
      else if 10 < length exportNames then
        (Inr (Error (''Too many schema exports. Maximum 10 schemas allowed, found ''
                      @ showNat (length exportNames) @ ''.'')), w)
      else
      case (if \<not> existsSync w (tempDirOf e)
            then fsDo e MkdirTempDir (Mkdir (tempDirOf e)) (addPath (tempDirOf e)) w
            else (None, w)) of
        (Some t, w1) \<Rightarrow> (Inl t, w1)
      | (None, w1) \<Rightarrow>
      case (if \<not> existsSync w1 (tempNodeModulesOf e)
            then fsDo e MkdirNodeModules (Mkdir (tempNodeModulesOf e))
                   (addPath (tempNodeModulesOf e)) w1
            else (None, w1)) of
        (Some t, w2) \<Rightarrow> (Inl t, w2)
      | (None, w2) \<Rightarrow>
      if \<not> existsSync w2 (zodVersionPathOf root v) then
        (Inr (Error (''Zod v'' @ showVersion v @ '' is not installed at ''
                      @ zodVersionPathOf root v)), w2)
      else
      case (if \<not> existsSync w2 (zodLinkOf e)
            then fsDo e SymlinkZod (Symlink (zodVersionPathOf root v) (zodLinkOf e))
                   (addPath (zodLinkOf e)) w2
            else (None, w2)) of
        (Some t, w3) \<Rightarrow> (Inl t, w3)
      | (None, w3) \<Rightarrow>
      case fsDo e WriteSchema (WriteFile (tempFileOf e) (transpile e schemaCode))
             (addPath (tempFileOf e)) w3 of
        (Some t, w4) \<Rightarrow> (Inl t, w4)
      | (None, w4) \<Rightarrow>
      case foldl (convertExport e targetLanguage) (emptyBatch, w4) exportNames of
        (b, w5) \<Rightarrow>
          (Inr (Output (assemble targetLanguage (nonExported (detectAllZodSchemas schemaCode)) b)),
           w5))"

text \<open>The \<open>catch\<close> block.\<close>

definition catchBlock :: "(thrown + result) \<times> world \<Rightarrow> result \<times> world" where
  "catchBlock rw =
     (case rw of
        (Inr r, w) \<Rightarrow> (r, w)
      | (Inl error, w) \<Rightarrow>
          (Error (case error of ErrorObj message \<Rightarrow> message | NonError \<Rightarrow> ''Conversion failed''),
           logEvent (ConsoleError ''Schema conversion error:'' (Thrown error)) w))"

text \<open>The \<open>finally\<close> block: the removal, and the warning when the removal throws.\<close>

definition finallyBlock :: "'s env \<Rightarrow> world \<Rightarrow> world" where
  "finallyBlock e w =
     (case fsDo e RmTempDir (Rm (tempDirOf e)) (rmTree (tempDirOf e)) w of
        (Some err, w') \<Rightarrow>
          logEvent (ConsoleWarn ''Failed to delete temporary files:'' (Thrown err)) w'
      | (None, w') \<Rightarrow> w')"

definition convertZodSchema :: "'s env \<Rightarrow> string \<Rightarrow> language \<Rightarrow> zodVersion \<Rightarrow> world
    \<Rightarrow> result outcome \<times> world" where
  "convertZodSchema e schemaCode targetLanguage v w =
     (case moduleRoot e of
        None \<Rightarrow>
          (Throws (ErrorObj ''Could not locate node_modules. Set SCHEMABRIDGE_MODULE_ROOT to override.''),
           w)
      | Some root \<Rightarrow>
          (case catchBlock (tryBlock e root schemaCode targetLanguage v w) of
             (r, w') \<Rightarrow> (Returns r, finallyBlock e w')))"

section \<open>Names for the statements about a request\<close>




text \<open>Two given characters stand next to each other somewhere in a string.\<close>

fun adjacent :: "char \<Rightarrow> char \<Rightarrow> string \<Rightarrow> bool" where
  "adjacent a b [] = False"
| "adjacent a b [x] = False"
| "adjacent a b (x # y # r) = (if x = a \<and> y = b then True else adjacent a b (y # r))"



text \<open>What the \<open>finally\<close> block adds to the trace.\<close>

definition cleanupEvents :: "'s env \<Rightarrow> event list" where
  "cleanupEvents e =
     Rm (tempDirOf e) #
     (case fails e RmTempDir of None \<Rightarrow> []
      | Some err \<Rightarrow> [ConsoleWarn ''Failed to delete temporary files:'' (Thrown err)])"

text \<open>A path is the directory \<open>d\<close> or lies below it.\<close>

definition within :: "string \<Rightarrow> string \<Rightarrow> bool" where
  "within d p = (p = d \<or> startsWith p (d @ ''/''))"







text \<open>The two \<open>mkdir\<close> calls, when neither throws.\<close>

definition afterMkdirs :: "'s env \<Rightarrow> world \<Rightarrow> world" where
  "afterMkdirs e w =
     w\<lparr>files := addPath (tempNodeModulesOf e) (addPath (tempDirOf e) (files w)),
       trace := trace w
         @ (if existsSync w (tempDirOf e) then [] else [Mkdir (tempDirOf e)])
         @ (if existsSync w (tempNodeModulesOf e) then [] else [Mkdir (tempNodeModulesOf e)])\<rparr>"






section \<open>A concrete environment\<close>

text \<open>
  A delegate that generates, for a binding \<open>N\<close>, an import block, an enum \<open>NKindEnum\<close>
  with the one value \<open>a\<close> and a model, and whose loader fails on the binding \<open>Bad\<close> with
  a message that names the module file.
\<close>

definition exampleEnv :: "string env" where
  "exampleEnv =
     \<lparr>moduleRoot = Some ''/app'', tmpdir = ''/tmp'', now = 17, random = ''k3x'',
      fails = (\<lambda>call. None), transpile = (\<lambda>code. code),
      loadZodSchema = (\<lambda>file name.
        if name = ''Bad'' then Inl (ErrorObj (''Cannot load '' @ file)) else Inr (name, [])),
      convertZodToPydantic = (\<lambda>schema name. Inr (join [newline]
        [''from enum import Enum'', ''from pydantic import BaseModel'', '''',
         ''class '' @ name @ ''KindEnum(str, Enum):'', ''    A = '' @ [dquote] @ ''a'' @ [dquote],
         '''', ''class '' @ name @ ''(BaseModel):'', ''    kind: '' @ name @ ''KindEnum''])),
      convertZodToTypescript = (\<lambda>schema name. Inr (''export type '' @ name @ '' = {}''))\<rparr>"

text \<open>The same environment, with a removal that throws.\<close>

definition rmFailingEnv :: "string env" where
  "rmFailingEnv =
     exampleEnv\<lparr>fails := (\<lambda>call. if call = RmTempDir
                                  then Some (ErrorObj ''EBUSY: resource busy or locked'')
                                  else None)\<rparr>"




definition exampleWorld :: world where
  "exampleWorld = \<lparr>files = [''/app/node_modules/zod-v3''], trace = []\<rparr>"

definition exampleSource :: string where
  "exampleSource = join [newline]
     [''export const User = z.object({})'', ''const Draft = z.object({})'',
      ''export const Bad = z.foo()'', ''export  const  Team=z.object({})'']"

definition elevenExports :: string where
  "elevenExports = concat (replicate 11 ''export const A=z.'')"

section \<open>Unfolding sets for evaluation at concrete inputs\<close>

lemmas str_defs = trim_def trimStart_def trimEnd_def isSpace_def isWord_def newline_def dquote_def
  lit_def spaces1_def endsWith_def indentOf_def

lemmas enum_defs = pyEnumMatch_def assignPrefix_def pyAssignMatch_def quotedValue_def
  pyValueMatch_def tsEnumMatch_def tsValueMatch_def has_def setIfAbsent_def saveEnum_def
  addValue_def pyLeaves_def pyStays_def tsCloses_def pyInit_def tsInit_def

section \<open>The extraction loops, block by block\<close>

lemma saveEnum_empty: "saveEnum m block [] = m"
  by (simp add: saveEnum_def split: option.split)

lemma pyLeaves_iff: "pyLeaves (indentOf h) l = (\<not> pyStays h l)"
  by (auto simp: pyLeaves_def pyStays_def)

lemma pyStep_header:
  "pyEnumMatch (trim h) \<Longrightarrow>
   pyStep s h = s\<lparr>enumMap := saveEnum (enumMap s) (currentEnum s) (enumSignature s),
                  currentEnum := Some [h], enumIndent := indentOf h,
                  enumSignature := [], inEnum := True\<rparr>"
  by (simp add: pyStep_def)

lemma pyStep_stay:
  "\<not> pyEnumMatch (trim l) \<Longrightarrow> currentEnum s = Some block \<Longrightarrow> inEnum s \<Longrightarrow>
   \<not> pyLeaves (enumIndent s) l \<Longrightarrow>
   pyStep s l = s\<lparr>currentEnum := Some (block @ [l]),
                  enumSignature := addValue (enumSignature s) (pyValueMatch (trim l))\<rparr>"
  by (simp add: pyStep_def)

lemma pyStep_leave:
  "\<not> pyEnumMatch (trim l) \<Longrightarrow> currentEnum s = Some block \<Longrightarrow> inEnum s \<Longrightarrow>
   pyLeaves (enumIndent s) l \<Longrightarrow>
   pyStep s l = s\<lparr>enumMap := saveEnum (enumMap s) (Some block) (enumSignature s),
                  currentEnum := None, inEnum := False, bodyLines := bodyLines s @ [l]\<rparr>"
  by (simp add: pyStep_def)



lemma foldl_pyStep_inside:
  "\<forall>l\<in>set ls. \<not> pyEnumMatch (trim l) \<and> \<not> pyLeaves (enumIndent s) l \<Longrightarrow>
   currentEnum s = Some block \<Longrightarrow> inEnum s \<Longrightarrow>
   foldl pyStep s ls =
     s\<lparr>currentEnum := Some (block @ ls),
       enumSignature := foldl (\<lambda>sig l. addValue sig (pyValueMatch (trim l))) (enumSignature s) ls\<rparr>"
proof (induction ls arbitrary: s block)
  case Nil
  then show ?case by simp
next
  case (Cons l ls)
  let ?s1 = "s\<lparr>currentEnum := Some (block @ [l]),
                enumSignature := addValue (enumSignature s) (pyValueMatch (trim l))\<rparr>"
  have step: "pyStep s l = ?s1"
    using Cons.prems by (simp add: pyStep_stay)
  have "foldl pyStep ?s1 ls =
     ?s1\<lparr>currentEnum := Some ((block @ [l]) @ ls),
       enumSignature := foldl (\<lambda>sig l. addValue sig (pyValueMatch (trim l))) (enumSignature ?s1) ls\<rparr>"
    by (rule Cons.IH) (use Cons.prems in simp_all)
  with step show ?case by simp
qed

text \<open>A header and the lines that stay: the block is open and holds exactly these lines.\<close>

lemma foldl_pyStep_block:
  assumes h: "pyEnumMatch (trim h)"
    and ls: "\<forall>l\<in>set ls. \<not> pyEnumMatch (trim l) \<and> pyStays h l"
  shows "foldl pyStep s (h # ls) =
     s\<lparr>enumMap := saveEnum (enumMap s) (currentEnum s) (enumSignature s),
       currentEnum := Some (h # ls), enumIndent := indentOf h,
       enumSignature := pySignature ls, inEnum := True\<rparr>"
proof -
  let ?s1 = "s\<lparr>enumMap := saveEnum (enumMap s) (currentEnum s) (enumSignature s),
                currentEnum := Some [h], enumIndent := indentOf h,
                enumSignature := [], inEnum := True\<rparr>"
  have "foldl pyStep ?s1 ls =
     ?s1\<lparr>currentEnum := Some ([h] @ ls),
       enumSignature := foldl (\<lambda>sig l. addValue sig (pyValueMatch (trim l))) (enumSignature ?s1) ls\<rparr>"
    by (rule foldl_pyStep_inside) (use ls in \<open>simp_all add: pyLeaves_iff\<close>)
  then show ?thesis
    by (simp add: pyStep_header [OF h] pySignature_def)
qed


lemma pySignature_no_values:
  "\<forall>l\<in>set ls. pyValueMatch (trim l) = None \<Longrightarrow>
   foldl (\<lambda>sig l. addValue sig (pyValueMatch (trim l))) sig ls = sig"
  by (induction ls arbitrary: sig) (simp_all add: addValue_def)

lemma tsStep_header:
  "tsEnumMatch (trim h) \<Longrightarrow>
   tsStep s h = s\<lparr>tsEnumMap := saveEnum (tsEnumMap s) (tsCurrentEnum s) (tsEnumSignature s),
                  tsCurrentEnum := Some [h], tsEnumSignature := []\<rparr>"
  by (simp add: tsStep_def)

lemma tsStep_stay:
  "\<not> tsEnumMatch (trim l) \<Longrightarrow> tsCurrentEnum s = Some block \<Longrightarrow> \<not> tsCloses l \<Longrightarrow>
   tsStep s l = s\<lparr>tsCurrentEnum := Some (block @ [l]),
                  tsEnumSignature := addValue (tsEnumSignature s) (tsValueMatch (trim l))\<rparr>"
  by (simp add: tsStep_def tsCloses_def)

lemma tsStep_close:
  "\<not> tsEnumMatch (trim l) \<Longrightarrow> tsCurrentEnum s = Some block \<Longrightarrow> tsCloses l \<Longrightarrow>
   tsStep s l = s\<lparr>tsEnumMap := saveEnum (tsEnumMap s) (Some (block @ [l])) (tsEnumSignature s),
                  tsCurrentEnum := None\<rparr>"
  by (simp add: tsStep_def tsCloses_def)



lemma foldl_tsStep_inside:
  "\<forall>l\<in>set ls. \<not> tsEnumMatch (trim l) \<and> \<not> tsCloses l \<Longrightarrow>
   tsCurrentEnum s = Some block \<Longrightarrow>
   foldl tsStep s ls =
     s\<lparr>tsCurrentEnum := Some (block @ ls),
       tsEnumSignature :=
         foldl (\<lambda>sig l. addValue sig (tsValueMatch (trim l))) (tsEnumSignature s) ls\<rparr>"
proof (induction ls arbitrary: s block)
  case Nil
  then show ?case by simp
next
  case (Cons l ls)
  let ?s1 = "s\<lparr>tsCurrentEnum := Some (block @ [l]),
                tsEnumSignature := addValue (tsEnumSignature s) (tsValueMatch (trim l))\<rparr>"
  have step: "tsStep s l = ?s1"
    using Cons.prems by (simp add: tsStep_stay)
  have "foldl tsStep ?s1 ls =
     ?s1\<lparr>tsCurrentEnum := Some ((block @ [l]) @ ls),
       tsEnumSignature :=
         foldl (\<lambda>sig l. addValue sig (tsValueMatch (trim l))) (tsEnumSignature ?s1) ls\<rparr>"
    by (rule Cons.IH) (use Cons.prems in simp_all)
  with step show ?case by simp
qed

lemma foldl_tsStep_block:
  assumes h: "tsEnumMatch (trim h)"
    and ls: "\<forall>l\<in>set ls. \<not> tsEnumMatch (trim l) \<and> \<not> tsCloses l"
  shows "foldl tsStep s (h # ls) =
     s\<lparr>tsEnumMap := saveEnum (tsEnumMap s) (tsCurrentEnum s) (tsEnumSignature s),
       tsCurrentEnum := Some (h # ls), tsEnumSignature := tsSignature ls\<rparr>"
proof -
  let ?s1 = "s\<lparr>tsEnumMap := saveEnum (tsEnumMap s) (tsCurrentEnum s) (tsEnumSignature s),
                tsCurrentEnum := Some [h], tsEnumSignature := []\<rparr>"
  have "foldl tsStep ?s1 ls =
     ?s1\<lparr>tsCurrentEnum := Some ([h] @ ls),
       tsEnumSignature :=
         foldl (\<lambda>sig l. addValue sig (tsValueMatch (trim l))) (tsEnumSignature ?s1) ls\<rparr>"
    by (rule foldl_tsStep_inside) (use ls in simp_all)
  then show ?thesis
    by (simp add: tsStep_header [OF h] tsSignature_def)
qed


lemma tsSignature_no_values:
  "\<forall>l\<in>set ls. tsValueMatch (trim l) = None \<Longrightarrow>
   foldl (\<lambda>sig l. addValue sig (tsValueMatch (trim l))) sig ls = sig"
  by (induction ls arbitrary: sig) (simp_all add: addValue_def)

section \<open>The paths through a request\<close>

lemma finallyBlock_trace: "trace (finallyBlock e w) = trace w @ cleanupEvents e"
  by (simp add: finallyBlock_def fsDo_def logEvent_def cleanupEvents_def split: option.split)

lemma finallyBlock_files:
  "files (finallyBlock e w) =
     (case fails e RmTempDir of None \<Rightarrow> rmTree (tempDirOf e) (files w) | Some err \<Rightarrow> files w)"
  by (simp add: finallyBlock_def fsDo_def logEvent_def split: option.split)

lemma convertZodSchema_root:
  "moduleRoot e = Some root \<Longrightarrow>
   convertZodSchema e schemaCode language v w =
     (Returns (fst (catchBlock (tryBlock e root schemaCode language v w))),
      finallyBlock e (snd (catchBlock (tryBlock e root schemaCode language v w))))"
  by (simp add: convertZodSchema_def split: prod.split)

lemma tryBlock_no_exports:
  "exported (detectAllZodSchemas schemaCode) = [] \<Longrightarrow>
   tryBlock e root schemaCode language v w =
     (Inr (Error ''No Zod schema exports found. Make sure to export your schemas with: export const schemaName = z.object(...)''), w)"
  by (simp add: tryBlock_def)

lemma tryBlock_too_many:
  "10 < length (exported (detectAllZodSchemas schemaCode)) \<Longrightarrow>
   tryBlock e root schemaCode language v w =
     (Inr (Error (''Too many schema exports. Maximum 10 schemas allowed, found ''
                   @ showNat (length (exported (detectAllZodSchemas schemaCode))) @ ''.'')), w)"
  by (auto simp: tryBlock_def Let_def)

lemma tempNodeModules_ne: "tempNodeModulesOf e \<noteq> tempDirOf e"
  by (simp add: tempNodeModulesOf_def pathJoin_def)

lemma tryBlock_unavailable:
  assumes "exported (detectAllZodSchemas schemaCode) \<noteq> []"
    and "length (exported (detectAllZodSchemas schemaCode)) \<le> 10"
    and "fails e MkdirTempDir = None" and "fails e MkdirNodeModules = None"
    and "zodVersionPathOf root v \<notin> set (tempDirOf e # tempNodeModulesOf e # files w)"
  shows "tryBlock e root schemaCode language v w =
     (Inr (Error (''Zod v'' @ showVersion v @ '' is not installed at ''
                   @ zodVersionPathOf root v)), afterMkdirs e w)"
  using assms tempNodeModules_ne [of e]
  by (auto simp: tryBlock_def Let_def fsDo_def existsSync_def addPath_def afterMkdirs_def)

section \<open>The concrete environment, evaluated\<close>

lemma exampleSource_exported:
  "exported (detectAllZodSchemas exampleSource) = [''User'', ''Bad'', ''Team'']"
  by code_simp

lemma exampleEnv_paths:
  "tempDirOf exampleEnv = ''/tmp/sb-playground-17-k3x''"
  "tempNodeModulesOf exampleEnv = ''/tmp/sb-playground-17-k3x/node_modules''"
  "zodLinkOf exampleEnv = ''/tmp/sb-playground-17-k3x/node_modules/zod''"
  "tempFileOf exampleEnv = ''/tmp/sb-playground-17-k3x/schema.mjs''"
  "cleanupEvents exampleEnv = [Rm ''/tmp/sb-playground-17-k3x'']"
  "moduleRoot exampleEnv = Some ''/app''"
  "fails exampleEnv = (\<lambda>call. None)"
  by (simp_all add: cleanupEvents_def exampleEnv_def tempDirOf_def tempNodeModulesOf_def
        zodLinkOf_def tempFileOf_def pathJoin_def)

section \<open>The clean-up\<close>

lemma paths_fails_irrelevant:
  "tempDirOf (e\<lparr>fails := f\<rparr>) = tempDirOf e"
  "tempFileOf (e\<lparr>fails := f\<rparr>) = tempFileOf e"
  "tempNodeModulesOf (e\<lparr>fails := f\<rparr>) = tempNodeModulesOf e"
  "zodLinkOf (e\<lparr>fails := f\<rparr>) = zodLinkOf e"
  by (simp_all add: tempDirOf_def tempFileOf_def tempNodeModulesOf_def zodLinkOf_def)

lemma convertExport_fails_irrelevant:
  "convertExport (e\<lparr>fails := f\<rparr>) language = convertExport e language"
  by (intro ext)
    (simp add: convertExport_def paths_fails_irrelevant Let_def
       split: prod.split sum.split language.split)

lemma fsDo_rm_irrelevant:
  "fsDo (e\<lparr>fails := (fails e)(RmTempDir := x)\<rparr>) MkdirTempDir = fsDo e MkdirTempDir"
  "fsDo (e\<lparr>fails := (fails e)(RmTempDir := x)\<rparr>) MkdirNodeModules = fsDo e MkdirNodeModules"
  "fsDo (e\<lparr>fails := (fails e)(RmTempDir := x)\<rparr>) SymlinkZod = fsDo e SymlinkZod"
  "fsDo (e\<lparr>fails := (fails e)(RmTempDir := x)\<rparr>) WriteSchema = fsDo e WriteSchema"
  by (simp_all add: fsDo_def fun_eq_iff)

lemma transpile_fails_irrelevant: "transpile (e\<lparr>fails := f\<rparr>) = transpile e"
  by simp

lemma tryBlock_rm_irrelevant:
  "tryBlock (e\<lparr>fails := (fails e)(RmTempDir := x)\<rparr>) root schemaCode language v w =
   tryBlock e root schemaCode language v w"
  unfolding tryBlock_def paths_fails_irrelevant convertExport_fails_irrelevant
    fsDo_rm_irrelevant transpile_fails_irrelevant
  by (rule refl)

lemma rmTree_within: "list_all (\<lambda>p. \<not> within d p) (rmTree d fs)"
  by (simp add: rmTree_def within_def list_all_iff)

section \<open>The loop over the bindings\<close>







section \<open>The registry\<close>



lemma map_of_setIfAbsent: "map_of (setIfAbsent m k v) = map_of (m @ [(k, v)])"
proof (cases "has m k")
  case True
  then have "map_of m k \<noteq> None"
    by (simp add: has_def map_of_eq_None_iff)
  then obtain d where d: "map_of m k = Some d"
    by blast
  have "map_of (m @ [(k, v)]) k' = map_of m k'" for k'
    using d by (cases "k' = k") (simp_all add: map_add_def split: option.split)
  then show ?thesis
    using True by (simp add: setIfAbsent_def fun_eq_iff)
next
  case False
  then show ?thesis by (simp add: setIfAbsent_def)
qed





lemma map_of_saveEnum_kept:
  "map_of m k = Some d \<Longrightarrow> map_of (saveEnum m block sig) k = Some d"
  by (simp add: saveEnum_def map_of_setIfAbsent split: option.split)


subsection \<open>The extraction loops keep the registry well-formed\<close>

lemma pyStep_enumMap:
  "enumMap (pyStep s l) = enumMap s \<or>
   (\<exists>block. enumMap (pyStep s l) = saveEnum (enumMap s) block (enumSignature s))"
  by (auto simp: pyStep_def split: option.split)

lemma tsStep_enumMap:
  "tsEnumMap (tsStep s l) = tsEnumMap s \<or>
   (\<exists>block. tsEnumMap (tsStep s l) = saveEnum (tsEnumMap s) block (tsEnumSignature s))"
  by (auto simp: tsStep_def split: option.split)



lemma pyStep_kept:
  "map_of (enumMap s) k = Some d \<Longrightarrow> map_of (enumMap (pyStep s l)) k = Some d"
  using pyStep_enumMap [of s l] by (auto intro: map_of_saveEnum_kept)



lemma tsStep_kept:
  "map_of (tsEnumMap s) k = Some d \<Longrightarrow> map_of (tsEnumMap (tsStep s l)) k = Some d"
  using tsStep_enumMap [of s l] by (auto intro: map_of_saveEnum_kept)



lemma foldl_pyStep_kept:
  "map_of (enumMap s) k = Some d \<Longrightarrow> map_of (enumMap (foldl pyStep s ls)) k = Some d"
  by (induction ls arbitrary: s) (simp_all add: pyStep_kept)



lemma foldl_tsStep_kept:
  "map_of (tsEnumMap s) k = Some d \<Longrightarrow> map_of (tsEnumMap (foldl tsStep s ls)) k = Some d"
  by (induction ls arbitrary: s) (simp_all add: tsStep_kept)




subsection \<open>Merging registries\<close>








subsection \<open>A block with values reaches the registry\<close>



section \<open>What a diagnostic can carry\<close>



lemma adjacent_append_left: "adjacent a b u \<Longrightarrow> adjacent a b (u @ v)"
  by (induction a b u rule: adjacent.induct) (auto split: if_splits)















section \<open>The result of a request and the name of its workspace\<close>










section \<open>Theorems\<close>

lemma firstByTrim_cong: "set seen = set seen' \<Longrightarrow> firstByTrim seen ls = firstByTrim seen' ls"
proof (induction ls arbitrary: seen seen')
  case Nil
  then show ?case by simp
next
  case (Cons l ls)
  have a: "firstByTrim (trim l # seen) ls = firstByTrim (trim l # seen') ls"
    by (rule Cons.IH) (simp add: Cons.prems)
  have b: "firstByTrim seen ls = firstByTrim seen' ls"
    by (rule Cons.IH) (simp add: Cons.prems)
  from a b Cons.prems show ?case by simp
qed

lemma foldl_mergeTsLine:
  "foldl mergeTsLine (seen, merged) ls =
     (seen @ map trim (firstByTrim seen ls), merged @ firstByTrim seen ls)"
proof (induction ls arbitrary: seen merged)
  case Nil
  then show ?case by simp
next
  case (Cons l ls)
  have eq: "firstByTrim (seen @ [trim l]) ls = firstByTrim (trim l # seen) ls"
    by (rule firstByTrim_cong) auto
  show ?case
  proof (cases "trim l \<in> set seen")
    case True
    then show ?thesis using Cons.IH by simp
  next
    case False
    then show ?thesis using Cons.IH [of "seen @ [trim l]" "merged @ [l]"] eq by simp
  qed
qed

lemma firstByTrim_append:
  "firstByTrim seen (xs @ ys) =
     firstByTrim seen xs @ firstByTrim (seen @ map trim (firstByTrim seen xs)) ys"
proof (induction xs arbitrary: seen)
  case Nil
  then show ?case by simp
next
  case (Cons l xs)
  have eq: "firstByTrim (seen @ trim l # map trim (firstByTrim (trim l # seen) xs)) ys =
            firstByTrim (trim l # seen @ map trim (firstByTrim (trim l # seen) xs)) ys"
    by (rule firstByTrim_cong) auto
  show ?case using Cons.IH [of "trim l # seen"] Cons.IH [of seen] eq by simp
qed

lemma foldl_foldl_mergeTsLine:
  "foldl (\<lambda>acc imports. foldl mergeTsLine acc imports) (seen, merged) xss =
     (seen @ map trim (firstByTrim seen (concat xss)), merged @ firstByTrim seen (concat xss))"
proof (induction xss arbitrary: seen merged)
  case Nil
  then show ?case by simp
next
  case (Cons xs xss)
  show ?case
    by (simp add: foldl_mergeTsLine Cons.IH firstByTrim_append)
qed

lemma firstByTrim_sublist: "subseq (firstByTrim seen ls) ls"
  by (induction ls arbitrary: seen) auto

lemma firstByTrim_distinct:
  "distinct (map trim (firstByTrim seen ls)) \<and> trim ` set (firstByTrim seen ls) \<inter> set seen = {}"
proof (induction ls arbitrary: seen)
  case Nil
  then show ?case by simp
next
  case (Cons l ls)
  from Cons.IH [of seen] Cons.IH [of "trim l # seen"] show ?case by auto
qed

lemma firstByTrim_keys:
  "trim ` set (firstByTrim seen ls) \<union> set seen = trim ` set ls \<union> set seen"
proof (induction ls arbitrary: seen)
  case Nil
  then show ?case by simp
next
  case (Cons l ls)
  from Cons.IH [of seen] Cons.IH [of "trim l # seen"] show ?case by auto
qed

text \<open>
  C7 (as the code has it). For the structural type dialect the merged import list holds,
  in order of first occurrence across all bindings' import blocks, the first line of each
  distinct trimmed text, kept as it was written: the merged list is a subsequence of the
  concatenated import blocks (no splitting, merging or reordering), no two merged lines
  have the same trimmed text, and every trimmed text of the input is represented.
\<close>

theorem mergeTypeScriptImports_first_by_trimmed_text:
  "mergeTypeScriptImports importArrays = firstByTrim [] (concat importArrays)
   \<and> subseq (mergeTypeScriptImports importArrays) (concat importArrays)
   \<and> distinct (map trim (mergeTypeScriptImports importArrays))
   \<and> trim ` set (mergeTypeScriptImports importArrays) = trim ` set (concat importArrays)"
proof -
  have eq: "mergeTypeScriptImports importArrays = firstByTrim [] (concat importArrays)"
    by (simp add: mergeTypeScriptImports_def foldl_foldl_mergeTsLine)
  show ?thesis
    using firstByTrim_sublist [of "[]" "concat importArrays"]
      firstByTrim_distinct [of "[]" "concat importArrays"]
      firstByTrim_keys [of "[]" "concat importArrays"]
    by (simp add: eq)
qed

text \<open>
  C7 (as stated) fails: two import lines that differ only in surrounding white space are
  different line texts, yet the second is dropped.
\<close>

theorem mergeTypeScriptImports_not_exact_text:
  "mergeTypeScriptImports [[''import a''], ['' import a'']]
     \<noteq> spec_dedupExact [] (concat [[''import a''], ['' import a'']])"
  by (simp add: mergeTypeScriptImports_def trim_def trimStart_def trimEnd_def isSpace_def Let_def)


section \<open>The extent of an enum block\<close>




section \<open>Blocks without values\<close>

text \<open>
  C10. A block whose lines hold no literal string-value assignment has the empty
  signature. From any loop state, after its header and its lines the body and the
  registry are as they were when the block opened (the registry with the block open
  before it saved); and however the block ends (the end of the input, a line that leaves
  or closes it, or the next header) the registry stays so, and the body gains at most the
  leaving line: the block's lines are in neither.
\<close>

theorem enum_block_without_values_deleted:
  "(pyEnumMatch (trim h) \<and>
      (\<forall>l\<in>set ls. \<not> pyEnumMatch (trim l) \<and> pyStays h l \<and> pyValueMatch (trim l) = None) \<longrightarrow>
      currentEnum (foldl pyStep s (h # ls)) = Some (h # ls)
      \<and> bodyLines (foldl pyStep s (h # ls)) = bodyLines s
      \<and> enumMap (foldl pyStep s (h # ls)) = saveEnum (enumMap s) (currentEnum s) (enumSignature s)
      \<and> saveEnum (enumMap (foldl pyStep s (h # ls))) (currentEnum (foldl pyStep s (h # ls)))
            (enumSignature (foldl pyStep s (h # ls)))
          = saveEnum (enumMap s) (currentEnum s) (enumSignature s)
      \<and> (pyLeaves (indentOf h) l \<and> \<not> pyEnumMatch (trim l) \<longrightarrow>
            enumMap (foldl pyStep s (h # ls @ [l]))
              = saveEnum (enumMap s) (currentEnum s) (enumSignature s)
            \<and> bodyLines (foldl pyStep s (h # ls @ [l])) = bodyLines s @ [l]
            \<and> currentEnum (foldl pyStep s (h # ls @ [l])) = None)
      \<and> (pyEnumMatch (trim l) \<longrightarrow>
            enumMap (foldl pyStep s (h # ls @ [l]))
              = saveEnum (enumMap s) (currentEnum s) (enumSignature s)
            \<and> bodyLines (foldl pyStep s (h # ls @ [l])) = bodyLines s))
   \<and> (tsEnumMatch (trim h') \<and>
      (\<forall>l\<in>set ls'. \<not> tsEnumMatch (trim l) \<and> \<not> tsCloses l \<and> tsValueMatch (trim l) = None) \<longrightarrow>
      tsCurrentEnum (foldl tsStep t (h' # ls')) = Some (h' # ls')
      \<and> tsBodyLines (foldl tsStep t (h' # ls')) = tsBodyLines t
      \<and> tsEnumMap (foldl tsStep t (h' # ls'))
          = saveEnum (tsEnumMap t) (tsCurrentEnum t) (tsEnumSignature t)
      \<and> saveEnum (tsEnumMap (foldl tsStep t (h' # ls'))) (tsCurrentEnum (foldl tsStep t (h' # ls')))
            (tsEnumSignature (foldl tsStep t (h' # ls')))
          = saveEnum (tsEnumMap t) (tsCurrentEnum t) (tsEnumSignature t)
      \<and> (tsCloses l' \<and> \<not> tsEnumMatch (trim l') \<longrightarrow>
            tsEnumMap (foldl tsStep t (h' # ls' @ [l']))
              = saveEnum (tsEnumMap t) (tsCurrentEnum t) (tsEnumSignature t)
            \<and> tsBodyLines (foldl tsStep t (h' # ls' @ [l'])) = tsBodyLines t
            \<and> tsCurrentEnum (foldl tsStep t (h' # ls' @ [l'])) = None)
      \<and> (tsEnumMatch (trim l') \<longrightarrow>
            tsEnumMap (foldl tsStep t (h' # ls' @ [l']))
              = saveEnum (tsEnumMap t) (tsCurrentEnum t) (tsEnumSignature t)
            \<and> tsBodyLines (foldl tsStep t (h' # ls' @ [l'])) = tsBodyLines t))"
proof (rule conjI; rule impI)
  assume "pyEnumMatch (trim h) \<and>
      (\<forall>l\<in>set ls. \<not> pyEnumMatch (trim l) \<and> pyStays h l \<and> pyValueMatch (trim l) = None)"
  then have h: "pyEnumMatch (trim h)"
    and ls: "\<forall>l\<in>set ls. \<not> pyEnumMatch (trim l) \<and> pyStays h l"
    and nv: "\<forall>l\<in>set ls. pyValueMatch (trim l) = None"
    by simp_all
  let ?m = "saveEnum (enumMap s) (currentEnum s) (enumSignature s)"
  let ?s' = "s\<lparr>enumMap := ?m, currentEnum := Some (h # ls), enumIndent := indentOf h,
                enumSignature := [], inEnum := True\<rparr>"
  have "pySignature ls = []"
    unfolding pySignature_def by (rule pySignature_no_values [OF nv])
  with foldl_pyStep_block [OF h ls, of s] have s': "foldl pyStep s (h # ls) = ?s'"
    by simp
  have "h # ls @ [l] = (h # ls) @ [l]" by simp
  then have "foldl pyStep s (h # ls @ [l]) = pyStep (foldl pyStep s (h # ls)) l"
    by (simp only: foldl_append foldl.simps)
  then have app: "foldl pyStep s (h # ls @ [l]) = pyStep ?s' l"
    by (simp only: s')
  have leave: "pyStep ?s' l = ?s'\<lparr>enumMap := saveEnum (enumMap ?s') (Some (h # ls)) (enumSignature ?s'),
                  currentEnum := None, inEnum := False, bodyLines := bodyLines ?s' @ [l]\<rparr>"
    if "pyLeaves (indentOf h) l" "\<not> pyEnumMatch (trim l)"
    by (rule pyStep_leave) (use that in simp_all)
  show "currentEnum (foldl pyStep s (h # ls)) = Some (h # ls)
      \<and> bodyLines (foldl pyStep s (h # ls)) = bodyLines s
      \<and> enumMap (foldl pyStep s (h # ls)) = ?m
      \<and> saveEnum (enumMap (foldl pyStep s (h # ls))) (currentEnum (foldl pyStep s (h # ls)))
            (enumSignature (foldl pyStep s (h # ls))) = ?m
      \<and> (pyLeaves (indentOf h) l \<and> \<not> pyEnumMatch (trim l) \<longrightarrow>
            enumMap (foldl pyStep s (h # ls @ [l])) = ?m
            \<and> bodyLines (foldl pyStep s (h # ls @ [l])) = bodyLines s @ [l]
            \<and> currentEnum (foldl pyStep s (h # ls @ [l])) = None)
      \<and> (pyEnumMatch (trim l) \<longrightarrow>
            enumMap (foldl pyStep s (h # ls @ [l])) = ?m
            \<and> bodyLines (foldl pyStep s (h # ls @ [l])) = bodyLines s)"
    unfolding app unfolding s'
    by (auto simp: leave pyStep_header saveEnum_empty)
next
  assume "tsEnumMatch (trim h') \<and>
      (\<forall>l\<in>set ls'. \<not> tsEnumMatch (trim l) \<and> \<not> tsCloses l \<and> tsValueMatch (trim l) = None)"
  then have h: "tsEnumMatch (trim h')"
    and ls: "\<forall>l\<in>set ls'. \<not> tsEnumMatch (trim l) \<and> \<not> tsCloses l"
    and nv: "\<forall>l\<in>set ls'. tsValueMatch (trim l) = None"
    by simp_all
  let ?m = "saveEnum (tsEnumMap t) (tsCurrentEnum t) (tsEnumSignature t)"
  let ?t' = "t\<lparr>tsEnumMap := ?m, tsCurrentEnum := Some (h' # ls'), tsEnumSignature := []\<rparr>"
  have "tsSignature ls' = []"
    unfolding tsSignature_def by (rule tsSignature_no_values [OF nv])
  with foldl_tsStep_block [OF h ls, of t] have t': "foldl tsStep t (h' # ls') = ?t'"
    by simp
  have "h' # ls' @ [l'] = (h' # ls') @ [l']" by simp
  then have "foldl tsStep t (h' # ls' @ [l']) = tsStep (foldl tsStep t (h' # ls')) l'"
    by (simp only: foldl_append foldl.simps)
  then have app: "foldl tsStep t (h' # ls' @ [l']) = tsStep ?t' l'"
    by (simp only: t')
  have close: "tsStep ?t' l' = ?t'\<lparr>tsEnumMap := saveEnum (tsEnumMap ?t') (Some ((h' # ls') @ [l']))
                     (tsEnumSignature ?t'), tsCurrentEnum := None\<rparr>"
    if "tsCloses l'" "\<not> tsEnumMatch (trim l')"
    by (rule tsStep_close) (use that in simp_all)
  show "tsCurrentEnum (foldl tsStep t (h' # ls')) = Some (h' # ls')
      \<and> tsBodyLines (foldl tsStep t (h' # ls')) = tsBodyLines t
      \<and> tsEnumMap (foldl tsStep t (h' # ls')) = ?m
      \<and> saveEnum (tsEnumMap (foldl tsStep t (h' # ls'))) (tsCurrentEnum (foldl tsStep t (h' # ls')))
            (tsEnumSignature (foldl tsStep t (h' # ls'))) = ?m
      \<and> (tsCloses l' \<and> \<not> tsEnumMatch (trim l') \<longrightarrow>
            tsEnumMap (foldl tsStep t (h' # ls' @ [l'])) = ?m
            \<and> tsBodyLines (foldl tsStep t (h' # ls' @ [l'])) = tsBodyLines t
            \<and> tsCurrentEnum (foldl tsStep t (h' # ls' @ [l'])) = None)
      \<and> (tsEnumMatch (trim l') \<longrightarrow>
            tsEnumMap (foldl tsStep t (h' # ls' @ [l'])) = ?m
            \<and> tsBodyLines (foldl tsStep t (h' # ls' @ [l'])) = tsBodyLines t)"
    unfolding app unfolding t'
    by (auto simp: close tsStep_header saveEnum_empty)
qed

theorem enum_block_without_values_deleted_witness:
  \<open>(currentEnum (foldl pyStep pyInit [''class EmptyEnum(str, Enum):'', ''    pass'', ''''])
       = Some [''class EmptyEnum(str, Enum):'', ''    pass'', '''']
     \<and> bodyLines (foldl pyStep pyInit [''class EmptyEnum(str, Enum):'', ''    pass'', '''']) = []
     \<and> enumMap (foldl pyStep pyInit [''class EmptyEnum(str, Enum):'', ''    pass'', '''']) = []
     \<and> enumMap (foldl pyStep pyInit [''class EmptyEnum(str, Enum):'', ''    pass'', '''', ''x = 1'']) = []
     \<and> bodyLines (foldl pyStep pyInit [''class EmptyEnum(str, Enum):'', ''    pass'', '''', ''x = 1''])
        = [''x = 1'']
     \<and> enumMap (foldl pyStep pyInit
          [''class EmptyEnum(str, Enum):'', ''    pass'', '''', ''class BEnum(str, Enum):'']) = []
     \<and> bodyLines (foldl pyStep pyInit
          [''class EmptyEnum(str, Enum):'', ''    pass'', '''', ''class BEnum(str, Enum):'']) = [])
   \<and> (tsCurrentEnum (foldl tsStep tsInit [''enum Empty {'', ''  A,'', ''  B''])
       = Some [''enum Empty {'', ''  A,'', ''  B'']
     \<and> tsBodyLines (foldl tsStep tsInit [''enum Empty {'', ''  A,'', ''  B'']) = []
     \<and> tsEnumMap (foldl tsStep tsInit [''enum Empty {'', ''  A,'', ''  B'']) = []
     \<and> tsEnumMap (foldl tsStep tsInit [''enum Empty {'', ''  A,'', ''  B'', ''}'']) = []
     \<and> tsBodyLines (foldl tsStep tsInit [''enum Empty {'', ''  A,'', ''  B'', ''}'']) = []
     \<and> tsCurrentEnum (foldl tsStep tsInit [''enum Empty {'', ''  A,'', ''  B'', ''}'']) = None
     \<and> tsEnumMap (foldl tsStep tsInit [''enum Empty {'', ''  A,'', ''  B'', ''enum B {'']) = []
     \<and> tsBodyLines (foldl tsStep tsInit [''enum Empty {'', ''  A,'', ''  B'', ''enum B {'']) = [])
   \<and> extractPythonEnums (join [newline]
        [''class EmptyEnum(str, Enum):'', ''    pass'', '''', ''x = 1'']) = ([], ''x = 1'')
   \<and> extractTypeScriptEnums (join [newline]
        [''enum Empty {'', ''  A,'', ''  B'', ''}'', ''type T = Empty'']) = ([], ''type T = Empty'')\<close>
proof -
  have a: "pyEnumMatch (trim ''class EmptyEnum(str, Enum):'') \<and>
      (\<forall>l\<in>set [''    pass'', '''']. \<not> pyEnumMatch (trim l)
          \<and> pyStays ''class EmptyEnum(str, Enum):'' l \<and> pyValueMatch (trim l) = None)"
    by (simp add: str_defs enum_defs)
  have b: "tsEnumMatch (trim ''enum Empty {'') \<and>
      (\<forall>l\<in>set [''  A,'', ''  B'']. \<not> tsEnumMatch (trim l) \<and> \<not> tsCloses l
          \<and> tsValueMatch (trim l) = None)"
    by (simp add: str_defs enum_defs)
  have c: "pyLeaves (indentOf ''class EmptyEnum(str, Enum):'') ''x = 1''
      \<and> \<not> pyEnumMatch (trim ''x = 1'') \<and> pyEnumMatch (trim ''class BEnum(str, Enum):'')
      \<and> tsCloses ''}'' \<and> \<not> tsEnumMatch (trim ''}'') \<and> tsEnumMatch (trim ''enum B {'')"
    by (simp add: str_defs enum_defs)
  note t1 = enum_block_without_values_deleted [of "''class EmptyEnum(str, Enum):''"
      "[''    pass'', '''']" pyInit "''x = 1''" "''enum Empty {''" "[''  A,'', ''  B'']" tsInit "''}''"]
  note t2 = enum_block_without_values_deleted [of "''class EmptyEnum(str, Enum):''"
      "[''    pass'', '''']" pyInit "''class BEnum(str, Enum):''" "''enum Empty {''"
      "[''  A,'', ''  B'']" tsInit "''enum B {''"]
  have d: "saveEnum (enumMap pyInit) (currentEnum pyInit) (enumSignature pyInit) = []
     \<and> bodyLines pyInit = []
     \<and> saveEnum (tsEnumMap tsInit) (tsCurrentEnum tsInit) (tsEnumSignature tsInit) = []
     \<and> tsBodyLines tsInit = []"
    by (simp add: pyInit_def tsInit_def saveEnum_def)
  have e: "extractPythonEnums (join [newline]
        [''class EmptyEnum(str, Enum):'', ''    pass'', '''', ''x = 1'']) = ([], ''x = 1'')
   \<and> extractTypeScriptEnums (join [newline]
        [''enum Empty {'', ''  A,'', ''  B'', ''}'', ''type T = Empty'']) = ([], ''type T = Empty'')"
    by (simp add: str_defs enum_defs extractPythonEnums_def extractTypeScriptEnums_def
          pyStep_def tsStep_def)
  from t1 t2 a b c d e show ?thesis
    by (simp only: append.simps) simp
qed

section \<open>The cap on exported bindings\<close>

text \<open>
  C8. When the module root is located (otherwise the call throws before it reads the
  source) and more than ten exported bindings are detected, the request returns the
  capacity error, and the only calls it makes are those of the final clean-up: no
  directory is made, nothing is linked or written, and neither the loader nor a
  generator of the delegate is called.
\<close>

theorem too_many_exports_rejected_before_sandbox:
  assumes "moduleRoot e = Some root"
    and "10 < length (exported (detectAllZodSchemas schemaCode))"
  shows "fst (convertZodSchema e schemaCode language v w) =
           Returns (Error (''Too many schema exports. Maximum 10 schemas allowed, found ''
             @ showNat (length (exported (detectAllZodSchemas schemaCode))) @ ''.''))
         \<and> trace (snd (convertZodSchema e schemaCode language v w)) = trace w @ cleanupEvents e"
  using assms
  by (simp add: convertZodSchema_root tryBlock_too_many catchBlock_def finallyBlock_trace)

theorem too_many_exports_rejected_before_sandbox_witness:
  "fst (convertZodSchema exampleEnv elevenExports Pydantic V3 exampleWorld) =
     Returns (Error ''Too many schema exports. Maximum 10 schemas allowed, found 11.'')
   \<and> trace (snd (convertZodSchema exampleEnv elevenExports Pydantic V3 exampleWorld))
       = [Rm ''/tmp/sb-playground-17-k3x'']"
proof -
  have d: "exported (detectAllZodSchemas elevenExports) = replicate 11 ''A''"
    by code_simp
  have r: "moduleRoot exampleEnv = Some ''/app''"
    by (simp add: exampleEnv_def)
  have n: "10 < length (exported (detectAllZodSchemas elevenExports))"
    by (simp add: d)
  have s: "showNat (length (exported (detectAllZodSchemas elevenExports))) = ''11''"
    by (simp add: d)
  have c: "cleanupEvents exampleEnv = [Rm ''/tmp/sb-playground-17-k3x'']"
    by (simp add: cleanupEvents_def exampleEnv_def tempDirOf_def pathJoin_def)
  have t: "trace exampleWorld = []"
    by (simp add: exampleWorld_def)
  show ?thesis
    using too_many_exports_rejected_before_sandbox [OF r n, of Pydantic V3 exampleWorld]
    by (simp only: s c t) simp
qed

section \<open>The errors returned before the conversion\<close>

text \<open>
  C2 (as the code has it). When the module root is located: with no exported binding,
  or with more than ten, the request returns its error having made no call but those of
  the final clean-up, so no workspace directory was made. The missing schema-library
  version is found only after the workspace: when neither \<open>mkdir\<close> throws and the
  version's directory does not exist, the request returns the not-installed error after
  making the workspace directory and its \<open>node_modules\<close> directory (each unless it
  existed), and before linking, writing or calling the delegate; the clean-up follows.
\<close>

theorem early_errors_and_the_workspace:
  assumes "moduleRoot e = Some root"
  shows "(exported (detectAllZodSchemas schemaCode) = [] \<longrightarrow>
            fst (convertZodSchema e schemaCode language v w) =
              Returns (Error ''No Zod schema exports found. Make sure to export your schemas with: export const schemaName = z.object(...)'')
            \<and> trace (snd (convertZodSchema e schemaCode language v w))
                = trace w @ cleanupEvents e)
       \<and> (10 < length (exported (detectAllZodSchemas schemaCode)) \<longrightarrow>
            fst (convertZodSchema e schemaCode language v w) =
              Returns (Error (''Too many schema exports. Maximum 10 schemas allowed, found ''
                @ showNat (length (exported (detectAllZodSchemas schemaCode))) @ ''.''))
            \<and> trace (snd (convertZodSchema e schemaCode language v w))
                = trace w @ cleanupEvents e)
       \<and> (exported (detectAllZodSchemas schemaCode) \<noteq> []
            \<and> length (exported (detectAllZodSchemas schemaCode)) \<le> 10
            \<and> fails e MkdirTempDir = None \<and> fails e MkdirNodeModules = None
            \<and> zodVersionPathOf root v \<notin> set (tempDirOf e # tempNodeModulesOf e # files w) \<longrightarrow>
            fst (convertZodSchema e schemaCode language v w) =
              Returns (Error (''Zod v'' @ showVersion v @ '' is not installed at ''
                @ zodVersionPathOf root v))
            \<and> trace (snd (convertZodSchema e schemaCode language v w))
                = trace w
                  @ (if existsSync w (tempDirOf e) then [] else [Mkdir (tempDirOf e)])
                  @ (if existsSync w (tempNodeModulesOf e) then []
                     else [Mkdir (tempNodeModulesOf e)])
                  @ cleanupEvents e)"
proof (intro conjI impI)
  assume "exported (detectAllZodSchemas schemaCode) = []"
  then show "fst (convertZodSchema e schemaCode language v w) =
      Returns (Error ''No Zod schema exports found. Make sure to export your schemas with: export const schemaName = z.object(...)'')"
    and "trace (snd (convertZodSchema e schemaCode language v w)) = trace w @ cleanupEvents e"
    using assms
    by (simp_all add: convertZodSchema_root tryBlock_no_exports catchBlock_def finallyBlock_trace)
next
  assume "10 < length (exported (detectAllZodSchemas schemaCode))"
  then show "fst (convertZodSchema e schemaCode language v w) =
      Returns (Error (''Too many schema exports. Maximum 10 schemas allowed, found ''
        @ showNat (length (exported (detectAllZodSchemas schemaCode))) @ ''.''))"
    and "trace (snd (convertZodSchema e schemaCode language v w)) = trace w @ cleanupEvents e"
    using assms
    by (simp_all add: convertZodSchema_root tryBlock_too_many catchBlock_def finallyBlock_trace)
next
  assume a: "exported (detectAllZodSchemas schemaCode) \<noteq> []
     \<and> length (exported (detectAllZodSchemas schemaCode)) \<le> 10
     \<and> fails e MkdirTempDir = None \<and> fails e MkdirNodeModules = None
     \<and> zodVersionPathOf root v \<notin> set (tempDirOf e # tempNodeModulesOf e # files w)"
  have t: "tryBlock e root schemaCode language v w =
     (Inr (Error (''Zod v'' @ showVersion v @ '' is not installed at ''
                   @ zodVersionPathOf root v)), afterMkdirs e w)"
    by (rule tryBlock_unavailable) (use a in simp_all)
  show "fst (convertZodSchema e schemaCode language v w) =
      Returns (Error (''Zod v'' @ showVersion v @ '' is not installed at ''
        @ zodVersionPathOf root v))"
    using assms by (simp add: convertZodSchema_root t catchBlock_def)
  show "trace (snd (convertZodSchema e schemaCode language v w))
      = trace w
        @ (if existsSync w (tempDirOf e) then [] else [Mkdir (tempDirOf e)])
        @ (if existsSync w (tempNodeModulesOf e) then [] else [Mkdir (tempNodeModulesOf e)])
        @ cleanupEvents e"
    using assms
    by (simp add: convertZodSchema_root t catchBlock_def finallyBlock_trace afterMkdirs_def)
qed

theorem early_errors_and_the_workspace_witness:
  "fst (convertZodSchema exampleEnv ''const x = 1'' Pydantic V3 exampleWorld)
     = Returns (Error ''No Zod schema exports found. Make sure to export your schemas with: export const schemaName = z.object(...)'')
   \<and> trace (snd (convertZodSchema exampleEnv ''const x = 1'' Pydantic V3 exampleWorld))
       = [Rm ''/tmp/sb-playground-17-k3x'']
   \<and> fst (convertZodSchema exampleEnv elevenExports Pydantic V3 exampleWorld)
     = Returns (Error ''Too many schema exports. Maximum 10 schemas allowed, found 11.'')
   \<and> trace (snd (convertZodSchema exampleEnv elevenExports Pydantic V3 exampleWorld))
       = [Rm ''/tmp/sb-playground-17-k3x'']
   \<and> fst (convertZodSchema exampleEnv exampleSource Pydantic V4 exampleWorld)
     = Returns (Error ''Zod v4 is not installed at /app/node_modules/zod-v4'')
   \<and> trace (snd (convertZodSchema exampleEnv exampleSource Pydantic V4 exampleWorld))
       = [Mkdir ''/tmp/sb-playground-17-k3x'', Mkdir ''/tmp/sb-playground-17-k3x/node_modules'',
          Rm ''/tmp/sb-playground-17-k3x'']"
proof -
  have d0: "exported (detectAllZodSchemas ''const x = 1'') = []"
    by code_simp
  have d11: "exported (detectAllZodSchemas elevenExports) = replicate 11 ''A''"
    by code_simp
  have s: "showNat (length (replicate 11 ''A'')) = ''11''"
    by simp
  have z: "zodVersionPathOf ''/app'' V4 = ''/app/node_modules/zod-v4''" "showVersion V4 = ''4''"
    by (simp_all add: zodVersionPathOf_def pathJoin_def showVersion_def)
  have w: "trace exampleWorld = []" "files exampleWorld = [''/app/node_modules/zod-v3'']"
    by (simp_all add: exampleWorld_def)
  note t = early_errors_and_the_workspace [OF exampleEnv_paths(6)]
  from t [of "''const x = 1''" Pydantic V3 exampleWorld]
    t [of elevenExports Pydantic V3 exampleWorld]
    t [of exampleSource Pydantic V4 exampleWorld]
  show ?thesis
    by (simp add: d0 d11 s z w exampleSource_exported exampleEnv_paths existsSync_def)
qed

text \<open>
  C2 (as stated) fails for the missing version: the not-installed error is returned after
  the workspace directory has been made.
\<close>

theorem unavailable_version_found_after_workspace:
  "fst (convertZodSchema exampleEnv exampleSource Typescript V4 exampleWorld)
     = Returns (Error ''Zod v4 is not installed at /app/node_modules/zod-v4'')
   \<and> Mkdir ''/tmp/sb-playground-17-k3x''
       \<in> set (trace (snd (convertZodSchema exampleEnv exampleSource Typescript V4 exampleWorld)))"
proof -
  have "tryBlock exampleEnv ''/app'' exampleSource Typescript V4 exampleWorld =
     (Inr (Error (''Zod v'' @ showVersion V4 @ '' is not installed at ''
                   @ zodVersionPathOf ''/app'' V4)), afterMkdirs exampleEnv exampleWorld)"
    by (rule tryBlock_unavailable)
      (simp_all add: exampleSource_exported exampleEnv_paths exampleWorld_def
         zodVersionPathOf_def pathJoin_def showVersion_def)
  then show ?thesis
    by (simp add: convertZodSchema_root [of exampleEnv "''/app''"] exampleEnv_paths
          catchBlock_def finallyBlock_trace afterMkdirs_def exampleWorld_def existsSync_def
          zodVersionPathOf_def pathJoin_def showVersion_def)
qed

section \<open>The workspace after the request\<close>

text \<open>
  C4 (as the code has it). When the module root is located, the request always returns
  (it never throws), and on every path through it the removal of the workspace directory
  is called. When the removal succeeds, no path at or below the workspace directory
  exists afterwards. When the removal throws, the result is the one the request gives
  with a removal that succeeds, and the last thing done is the warning that carries what
  was thrown; the directory is then left as the removal left it.
\<close>

theorem workspace_removed_on_every_path:
  assumes "moduleRoot e = Some root"
  shows "(\<exists>r. fst (convertZodSchema e schemaCode language v w) = Returns r)
     \<and> Rm (tempDirOf e) \<in> set (trace (snd (convertZodSchema e schemaCode language v w)))
     \<and> (fails e RmTempDir = None \<longrightarrow>
          list_all (\<lambda>p. \<not> within (tempDirOf e) p)
            (files (snd (convertZodSchema e schemaCode language v w))))
     \<and> (fails e RmTempDir = Some err \<longrightarrow>
          fst (convertZodSchema e schemaCode language v w)
            = fst (convertZodSchema (e\<lparr>fails := (fails e)(RmTempDir := None)\<rparr>)
                     schemaCode language v w)
          \<and> last (trace (snd (convertZodSchema e schemaCode language v w)))
            = ConsoleWarn ''Failed to delete temporary files:'' (Thrown err))"
proof -
  let ?e' = "e\<lparr>fails := (fails e)(RmTempDir := None)\<rparr>"
  have root': "moduleRoot ?e' = Some root" using assms by simp
  show ?thesis
    by (simp add: convertZodSchema_root [OF assms] convertZodSchema_root [OF root']
          tryBlock_rm_irrelevant finallyBlock_trace finallyBlock_files cleanupEvents_def
          rmTree_within)
qed

theorem workspace_removed_on_every_path_witness:
  "(\<exists>r. fst (convertZodSchema exampleEnv exampleSource Pydantic V3 exampleWorld) = Returns r)
   \<and> Rm ''/tmp/sb-playground-17-k3x''
       \<in> set (trace (snd (convertZodSchema exampleEnv exampleSource Pydantic V3 exampleWorld)))
   \<and> list_all (\<lambda>p. \<not> within ''/tmp/sb-playground-17-k3x'' p)
        (files (snd (convertZodSchema exampleEnv exampleSource Pydantic V3 exampleWorld)))
   \<and> fst (convertZodSchema rmFailingEnv exampleSource Pydantic V3 exampleWorld)
       = fst (convertZodSchema exampleEnv exampleSource Pydantic V3 exampleWorld)
   \<and> last (trace (snd (convertZodSchema rmFailingEnv exampleSource Pydantic V3 exampleWorld)))
       = ConsoleWarn ''Failed to delete temporary files:''
           (Thrown (ErrorObj ''EBUSY: resource busy or locked''))"
proof -
  have r: "moduleRoot rmFailingEnv = Some ''/app''"
    by (simp add: rmFailingEnv_def exampleEnv_def)
  have f: "fails rmFailingEnv RmTempDir = Some (ErrorObj ''EBUSY: resource busy or locked'')"
    by (simp add: rmFailingEnv_def)
  have e: "rmFailingEnv\<lparr>fails := (fails rmFailingEnv)(RmTempDir := None)\<rparr> = exampleEnv"
    by (simp add: rmFailingEnv_def exampleEnv_def fun_eq_iff)
  have p: "tempDirOf rmFailingEnv = ''/tmp/sb-playground-17-k3x''"
    by (simp add: rmFailingEnv_def paths_fails_irrelevant exampleEnv_paths)
  from workspace_removed_on_every_path [OF exampleEnv_paths(6),
      of exampleSource Pydantic V3 exampleWorld]
    workspace_removed_on_every_path [OF r, of exampleSource Pydantic V3 exampleWorld
      "ErrorObj ''EBUSY: resource busy or locked''"]
  show ?thesis
    by (simp add: exampleEnv_paths f e p)
qed

text \<open>
  C4 (as stated) fails when the removal itself fails: the request returns, and the
  workspace directory still exists.
\<close>

theorem workspace_left_when_removal_fails:
  "existsSync (snd (convertZodSchema rmFailingEnv exampleSource Typescript V3 exampleWorld))
     ''/tmp/sb-playground-17-k3x''
   \<and> (case fst (convertZodSchema rmFailingEnv exampleSource Typescript V3 exampleWorld) of
          Returns (Output out) \<Rightarrow> True | Returns (Error message) \<Rightarrow> False
        | Throws err \<Rightarrow> False)"
  by code_simp

section \<open>A failing binding\<close>



section \<open>One definition per enum signature\<close>




section \<open>What reaches a diagnostic\<close>




section \<open>Two invocations\<close>




end
